theory Spec2Isabelle
  imports Main "HOL-Library.Word"
begin

section \<open>The reflected view of a struct\<close>

text \<open>
  \<^verbatim>\<open>type.go\<close> inspects an entity through Go's \<^verbatim>\<open>reflect\<close> package. A field's type is seen
  through three accessors only, \<^verbatim>\<open>Kind()\<close>, \<^verbatim>\<open>PkgPath()\<close> and \<^verbatim>\<open>Name()\<close>, so a reflected
  type is the record of those three. \<^verbatim>\<open>reflect.Kind\<close> is the enumeration of the
  \<^verbatim>\<open>reflect\<close> package, in its order.
\<close>

datatype Kind =
    reflect_Invalid | reflect_Bool
  | reflect_Int | reflect_Int8 | reflect_Int16 | reflect_Int32 | reflect_Int64
  | reflect_Uint | reflect_Uint8 | reflect_Uint16 | reflect_Uint32 | reflect_Uint64
  | reflect_Uintptr | reflect_Float32 | reflect_Float64
  | reflect_Complex64 | reflect_Complex128
  | reflect_Array | reflect_Chan | reflect_Func | reflect_Interface | reflect_Map
  | reflect_Pointer | reflect_Slice | reflect_String | reflect_Struct
  | reflect_UnsafePointer

record rtype =
  Kind :: Kind
  PkgPath :: string
  TypeName :: string

text \<open>
  A \<^verbatim>\<open>reflect.StructField\<close>: its Go name, its type and its tag. The tag is kept as the
  list of its \<^verbatim>\<open>key:"value"\<close> pairs in the order they are written;
  \<^verbatim>\<open>StructTag.Lookup\<close> returns the value of the first pair with the key.
\<close>

record StructField =
  Name :: string
  Type :: rtype
  Tag :: "(string \<times> string) list"

definition Lookup :: "(string \<times> string) list \<Rightarrow> string \<Rightarrow> string option" where
  "Lookup tag key = map_of tag key"

text \<open>
  The type handed back by \<^verbatim>\<open>reflect.TypeOf(entity.Instance())\<close>: a reflected type
  together with the fields \<^verbatim>\<open>Field(0)\<close> \dots \<^verbatim>\<open>Field(NumField()-1)\<close>. \<^verbatim>\<open>NumField\<close>
  panics unless the kind is \<^verbatim>\<open>Struct\<close>; so it does for a pointer to a struct, and for
  a nil instance, which stands here under the kind \<^verbatim>\<open>Invalid\<close>.
\<close>

record InstanceType = rtype +
  StructFields :: "StructField list"

section \<open>Library functions the code calls\<close>

text \<open>
  \<^verbatim>\<open>strconv.ParseBool\<close> accepts exactly twelve spellings; on any other string it
  returns \<^verbatim>\<open>false\<close> and a syntax error. The second component says whether an error was
  returned.
\<close>

definition ParseBool :: "string \<Rightarrow> bool \<times> bool" where
  "ParseBool str =
     (if str \<in> set [''1'', ''t'', ''T'', ''true'', ''TRUE'', ''True''] then (True, False)
      else if str \<in> set [''0'', ''f'', ''F'', ''false'', ''FALSE'', ''False''] then (False, False)
      else (False, True))"

text \<open>
  \<^verbatim>\<open>strings.ToLower\<close> on ASCII text: the letters A to Z move to a to z, every other
  byte stays. Go also lowers the letters beyond ASCII, which are spelled with bytes from
  128 on; on a string that has such a byte this function is not \<^verbatim>\<open>strings.ToLower\<close>, and
  what is proved about lowering is proved for strings of ASCII bytes.
\<close>

definition lower_byte :: "char \<Rightarrow> char" where
  "lower_byte c =
     (case map_of (zip ''ABCDEFGHIJKLMNOPQRSTUVWXYZ'' ''abcdefghijklmnopqrstuvwxyz'') c of
        Some l \<Rightarrow> l
      | None \<Rightarrow> c)"

definition ToLower :: "string \<Rightarrow> string" where
  "ToLower s = map lower_byte s"

definition ascii :: "string \<Rightarrow> bool" where
  "ascii s \<longleftrightarrow> (\<forall>c\<in>set s. (of_char c :: nat) < 128)"

section \<open>The GraphQL values that are built\<close>

text \<open>
  \<^verbatim>\<open>graphql.Output\<close> values that \<^verbatim>\<open>type.go\<close> produces: the five scalars, a pointer to an
  object (\<open>None\<close> is the nil pointer) and \<^verbatim>\<open>graphql.NewList\<close> of such a pointer. An
  object is what \<^verbatim>\<open>graphql.NewObject\<close> is given: name, description and the field map.
  A \<^verbatim>\<open>graphql.Field\<close> carries \<^verbatim>\<open>Type\<close>, \<^verbatim>\<open>Name\<close>, \<^verbatim>\<open>Description\<close> and \<^verbatim>\<open>Resolve\<close>; \<open>'r\<close> is
  the type of resolver functions, and \<open>None\<close> the nil function.
\<close>

datatype 'r Output =
    graphql_String | graphql_Boolean | graphql_Int | graphql_Float | graphql_DateTime
  | ObjectPtr "'r Object option"
  | NewList "'r Object option"
and 'r Object =
    NewObject (PrivateName: string) (PrivateDescription: string)
              (ObjectFields: "string \<Rightarrow> 'r Field option")
and 'r Field =
    Field (Field_Type: "'r Output") (Field_Name: string) (Field_Description: string)
          (Field_Resolve: "'r option")

type_synonym 'r Fields = "string \<Rightarrow> 'r Field option"

text \<open>A call either panics or returns.\<close>

datatype 'a outcome = Panics | Returns 'a

text \<open>
  \<^verbatim>\<open>Name()\<close> of an output type. On an object it reads the object's name, which panics on
  the nil pointer. On a list it is \<^verbatim>\<open>fmt.Sprintf("%v", OfType)\<close>, which prints the
  element's name and prints \<^verbatim>\<open><nil>\<close> for a nil pointer.
\<close>

fun Output_Name :: "'r Output \<Rightarrow> string outcome" where
  "Output_Name graphql_String = Returns ''String''"
| "Output_Name graphql_Boolean = Returns ''Boolean''"
| "Output_Name graphql_Int = Returns ''Int''"
| "Output_Name graphql_Float = Returns ''Float''"
| "Output_Name graphql_DateTime = Returns ''DateTime''"
| "Output_Name (ObjectPtr None) = Panics"
| "Output_Name (ObjectPtr (Some obj)) = Returns (PrivateName obj)"
| "Output_Name (NewList None) = Returns ''<nil>''"
| "Output_Name (NewList (Some obj)) = Returns (PrivateName obj)"

section \<open>Declarations of the package that \<^verbatim>\<open>type.go\<close> uses\<close>

text \<open>
  Modelled from the spec: the declarations of \<^verbatim>\<open>Entity\<close> and \<^verbatim>\<open>Resolvers\<close>, which are
  outside \<^verbatim>\<open>type.go\<close>. The specification speaks of application data-model struct
  definitions and of externally supplied resolver functions; \<^verbatim>\<open>type.go\<close> calls
  \<^verbatim>\<open>Instance()\<close> and \<^verbatim>\<open>Description()\<close> on an entity and \<^verbatim>\<open>Single(entity)\<close> and
  \<^verbatim>\<open>Listing(entity)\<close> on the resolvers. Both are taken to be interfaces: a value is
  either nil (\<open>None\<close>) or an implementation, a method call on nil panics, and the
  methods of an implementation return without side effect.
\<close>

record EntityImpl =
  Instance :: InstanceType
  Description :: string

type_synonym Entity = "EntityImpl option"

record 'r ResolversImpl =
  Single :: "Entity \<Rightarrow> 'r option"
  Listing :: "Entity \<Rightarrow> 'r option"

type_synonym 'r Resolvers = "'r ResolversImpl option"

text \<open>
  The filter codes \<^verbatim>\<open>filterNone\<close>, \<^verbatim>\<open>filterString\<close>, \dots are \<^verbatim>\<open>int8\<close> constants declared
  outside \<^verbatim>\<open>type.go\<close>; they are a parameter of the model.
\<close>

record FilterCodes =
  filterNone :: "8 word"
  filterString :: "8 word"
  filterBool :: "8 word"
  filterInt :: "8 word"
  filterFloat :: "8 word"
  filterDate :: "8 word"

datatype error = errorNotSimpleFieldType | errorNotRelationshipType | errorUnknownFieldType

section \<open>\<^verbatim>\<open>field\<close>: the scalar classifier\<close>

text \<open>
  \<^verbatim>\<open>fieldDefinition\<close>; its members \<^verbatim>\<open>filter\<close> and \<^verbatim>\<open>field\<close> are primed here, since
  \<open>filter\<close> is the list function and \<open>field\<close> the classifier. The zero value has
  filter code 0 and a nil field.
\<close>

record 'r fieldDefinition =
  filter' :: "8 word"
  field' :: "'r Field option"

definition fulltype :: "rtype \<Rightarrow> string" where
  "fulltype t = PkgPath t @ ''.'' @ TypeName t"

definition is_integer_kind :: "Kind \<Rightarrow> bool" where
  "is_integer_kind kind \<longleftrightarrow>
     kind = reflect_Int \<or> kind = reflect_Int8 \<or> kind = reflect_Int16 \<or> kind = reflect_Int32
     \<or> kind = reflect_Int64 \<or> kind = reflect_Uint \<or> kind = reflect_Uint8
     \<or> kind = reflect_Uint16 \<or> kind = reflect_Uint32 \<or> kind = reflect_Uint64"

definition tag_filterable :: "StructField \<Rightarrow> bool" where
  "tag_filterable f =
     (case Lookup (Tag f) ''filterable'' of Some v \<Rightarrow> fst (ParseBool v) | None \<Rightarrow> False)"

definition output_name :: "StructField \<Rightarrow> string" where
  "output_name f =
     ToLower (case Lookup (Tag f) ''json'' of Some v \<Rightarrow> v | None \<Rightarrow> Name f)"

text \<open>
  \<^verbatim>\<open>field\<close> returns the pair \<^verbatim>\<open>(ftype, err)\<close>. On both error returns \<^verbatim>\<open>ftype\<close> is still
  the zero value, so the result is the sum of the error and the definition.
  \<open>scalar_definition\<close> is the tail of the function (lines 104 to 115) for the branch
  that chose type \<open>t\<close> and filter code \<open>code\<close>.
\<close>

definition scalar_definition ::
  "StructField \<Rightarrow> 'r Output \<Rightarrow> 8 word \<Rightarrow> 'r fieldDefinition" where
  "scalar_definition f t code =
     \<lparr>filter' = (if tag_filterable f then code else 0),
      field' = Some (Field t (output_name f) [] None)\<rparr>"

definition field :: "FilterCodes \<Rightarrow> StructField \<Rightarrow> error + 'r fieldDefinition" where
  "field fc f =
     (let kind = Kind (Type f) in
      if kind = reflect_String then Inr (scalar_definition f graphql_String (filterString fc))
      else if kind = reflect_Bool then Inr (scalar_definition f graphql_Boolean (filterBool fc))
      else if is_integer_kind kind then Inr (scalar_definition f graphql_Int (filterInt fc))
      else if kind = reflect_Float32 \<or> kind = reflect_Float64
        then Inr (scalar_definition f graphql_Float (filterFloat fc))
      else if fulltype (Type f) = ''time.Time''
        then Inr (scalar_definition f graphql_DateTime (filterDate fc))
      else if kind = reflect_Struct \<or> kind = reflect_Slice then Inl errorNotSimpleFieldType
      else Inl errorNotRelationshipType)"

text \<open>
  What \<^verbatim>\<open>type.go\<close> relies on about the codes: a definition whose filter was never set
  holds the zero value of \<^verbatim>\<open>int8\<close>, and \<^verbatim>\<open>FieldType\<close> compares it with \<^verbatim>\<open>filterNone\<close>. So
  \<^verbatim>\<open>filterNone\<close> is taken to be 0 and the five codes that \<open>field\<close> assigns to differ
  from it.
\<close>

definition zero_is_filterNone :: "FilterCodes \<Rightarrow> bool" where
  "zero_is_filterNone fc \<longleftrightarrow>
     filterNone fc = 0 \<and> filterString fc \<noteq> 0 \<and> filterBool fc \<noteq> 0 \<and> filterInt fc \<noteq> 0
     \<and> filterFloat fc \<noteq> 0 \<and> filterDate fc \<noteq> 0"

text \<open>
  The filter code that matches the classification of a scalar field, as the
  specification words it: the string code for strings, the bool code for bools, the
  int code for the integer kinds, the float code for the float kinds and the date code
  for \<^verbatim>\<open>time.Time\<close>, the one scalar that is left. It is compared below with what \<open>field\<close>
  computes.
\<close>

definition spec_filter_code :: "FilterCodes \<Rightarrow> StructField \<Rightarrow> 8 word" where
  "spec_filter_code fc f =
     (if Kind (Type f) = reflect_String then filterString fc
      else if Kind (Type f) = reflect_Bool then filterBool fc
      else if is_integer_kind (Kind (Type f)) then filterInt fc
      else if Kind (Type f) = reflect_Float32 \<or> Kind (Type f) = reflect_Float64
        then filterFloat fc
      else filterDate fc)"

section \<open>\<^verbatim>\<open>FieldType\<close>: the object of an entity's scalar fields\<close>

text \<open>
  The loop of \<^verbatim>\<open>FieldType\<close> over the fields that are still to be visited, with the two
  maps it fills. A field that \<open>field\<close> rejects as not simple is skipped, any other error
  ends the call, and a definition is stored under its name unless the name is empty;
  its filter code is stored too unless it is \<^verbatim>\<open>filterNone\<close>.
\<close>

fun FieldType_loop ::
  "FilterCodes \<Rightarrow> StructField list \<Rightarrow> 'r Fields \<Rightarrow> (string \<Rightarrow> 8 word option)
     \<Rightarrow> error + ('r Fields \<times> (string \<Rightarrow> 8 word option))" where
  "FieldType_loop fc [] fieldmap filters = Inr (fieldmap, filters)"
| "FieldType_loop fc (f # fs) fieldmap filters =
     (case field fc f of
        Inl err \<Rightarrow>
          if err = errorNotSimpleFieldType then FieldType_loop fc fs fieldmap filters
          else Inl err
      | Inr def \<Rightarrow>
          (case field' def of
             None \<Rightarrow> FieldType_loop fc fs fieldmap filters
           | Some fld \<Rightarrow>
               if Field_Name fld \<noteq> [] then
                 FieldType_loop fc fs (fieldmap(Field_Name fld \<mapsto> fld))
                   (if filter' def \<noteq> filterNone fc
                    then filters(Field_Name fld \<mapsto> filter' def) else filters)
               else FieldType_loop fc fs fieldmap filters))"

text \<open>
  \<^verbatim>\<open>FieldType\<close> returns \<^verbatim>\<open>(object, filters, nil)\<close> or \<^verbatim>\<open>(nil, nil, err)\<close>. It panics on a
  nil entity and when the instance is not of kind \<^verbatim>\<open>Struct\<close>.
\<close>

definition FieldType ::
  "FilterCodes \<Rightarrow> Entity \<Rightarrow> (error + ('r Object \<times> (string \<Rightarrow> 8 word option))) outcome" where
  "FieldType fc entity =
     (case entity of
        None \<Rightarrow> Panics
      | Some e \<Rightarrow>
          let typeof = Instance e in
          if Kind typeof \<noteq> reflect_Struct then Panics
          else
            (case FieldType_loop fc (StructFields typeof) Map.empty Map.empty of
               Inl err \<Rightarrow> Returns (Inl err)
             | Inr (fieldmap, filters) \<Rightarrow>
                 Returns (Inr (NewObject (ToLower (TypeName typeof)) (Description e) fieldmap,
                               filters))))"

section \<open>\<^verbatim>\<open>relationship\<close> and \<^verbatim>\<open>RelationshipType\<close>\<close>

text \<open>
  \<^verbatim>\<open>Description()\<close> called on an entity value, and a method of the resolvers called on a
  resolvers value: both panic on the nil interface.
\<close>

definition Entity_Description :: "Entity \<Rightarrow> string outcome" where
  "Entity_Description entity =
     (case entity of None \<Rightarrow> Panics | Some e \<Rightarrow> Returns (Description e))"

definition call_resolver ::
  "'r Resolvers \<Rightarrow> ('r ResolversImpl \<Rightarrow> Entity \<Rightarrow> 'r option) \<Rightarrow> Entity \<Rightarrow> 'r option outcome" where
  "call_resolver resolvers method entity =
     (case resolvers of None \<Rightarrow> Panics | Some r \<Rightarrow> Returns (method r entity))"

text \<open>
  Lines 158 to 177 of \<^verbatim>\<open>relationship\<close>, for the name the first half settled on. A map
  read \<^verbatim>\<open>entitiesMap[name]\<close> of a missing key gives the nil interface and
  \<^verbatim>\<open>entitiesObjects[name]\<close> the nil pointer; the registered values are not nil. The
  description is formatted first (the type's name, then the entity's description),
  then the resolver is asked for.
\<close>

definition relationship_field ::
  "(string \<Rightarrow> EntityImpl option) \<Rightarrow> (string \<Rightarrow> 'r Object option) \<Rightarrow> 'r Resolvers
     \<Rightarrow> Kind \<Rightarrow> string \<Rightarrow> (error + 'r Field) outcome" where
  "relationship_field entitiesMap entitiesObjects resolvers kind name =
     (let entity = entitiesMap name in
      if kind = reflect_Struct then
        (let typeInfo = ObjectPtr (entitiesObjects name) in
         (case Output_Name typeInfo of
            Panics \<Rightarrow> Panics
          | Returns tn \<Rightarrow>
              (case Entity_Description entity of
                 Panics \<Rightarrow> Panics
               | Returns d \<Rightarrow>
                   (case call_resolver resolvers Single entity of
                      Panics \<Rightarrow> Panics
                    | Returns resolver \<Rightarrow>
                        Returns (Inr (Field typeInfo name
                          (''Get a single '' @ tn @ '' ('' @ d @ '') by id or slug'')
                          resolver))))))
      else if kind = reflect_Slice then
        (let typeInfo = NewList (entitiesObjects name) in
         (case Output_Name typeInfo of
            Panics \<Rightarrow> Panics
          | Returns tn \<Rightarrow>
              (case Entity_Description entity of
                 Panics \<Rightarrow> Panics
               | Returns d \<Rightarrow>
                   (case call_resolver resolvers Listing entity of
                      Panics \<Rightarrow> Panics
                    | Returns resolver \<Rightarrow>
                        Returns (Inr (Field typeInfo name
                          (''Get a list of '' @ tn @ '' ('' @ d @ '') according to filters'')
                          resolver))))))
      else Returns (Inl errorNotRelationshipType))"

text \<open>
  \<^verbatim>\<open>relationship\<close>. \<open>Singular\<close> is \<^verbatim>\<open>inflection.Singular\<close> of the third-party package
  \<^verbatim>\<open>jinzhu/inflection\<close>, a parameter of the model.
\<close>

definition relationship ::
  "(string \<Rightarrow> string) \<Rightarrow> (string \<Rightarrow> EntityImpl option) \<Rightarrow> (string \<Rightarrow> 'r Object option)
     \<Rightarrow> StructField \<Rightarrow> 'r Resolvers \<Rightarrow> (error + 'r Field) outcome" where
  "relationship Singular entitiesMap entitiesObjects f resolvers =
     (let kind = Kind (Type f);
          name = ToLower (Name f)
      in
      if kind = reflect_Slice then
        relationship_field entitiesMap entitiesObjects resolvers kind (ToLower (Singular name))
      else if fulltype (Type f) = ''time.Time''
              \<or> (kind \<noteq> reflect_Struct \<and> kind \<noteq> reflect_Slice)
        then Returns (Inl errorNotRelationshipType)
      else if entitiesMap name = None then Returns (Inl errorUnknownFieldType)
      else if entitiesObjects name = None then Returns (Inl errorUnknownFieldType)
      else relationship_field entitiesMap entitiesObjects resolvers kind name)"

text \<open>
  The loop of \<^verbatim>\<open>RelationshipType\<close>. On an error other than the one that marks a field as
  no relationship it returns the fields gathered so far together with the error.
\<close>

fun RelationshipType_loop ::
  "(string \<Rightarrow> string) \<Rightarrow> (string \<Rightarrow> EntityImpl option) \<Rightarrow> (string \<Rightarrow> 'r Object option)
     \<Rightarrow> 'r Resolvers \<Rightarrow> StructField list \<Rightarrow> 'r Fields
     \<Rightarrow> ('r Fields \<times> error option) outcome" where
  "RelationshipType_loop Singular entitiesMap entitiesObjects resolvers [] fieldmap =
     Returns (fieldmap, None)"
| "RelationshipType_loop Singular entitiesMap entitiesObjects resolvers (f # fs) fieldmap =
     (case relationship Singular entitiesMap entitiesObjects f resolvers of
        Panics \<Rightarrow> Panics
      | Returns (Inl err) \<Rightarrow>
          if err = errorNotRelationshipType
          then RelationshipType_loop Singular entitiesMap entitiesObjects resolvers fs fieldmap
          else Returns (fieldmap, Some err)
      | Returns (Inr fld) \<Rightarrow>
          RelationshipType_loop Singular entitiesMap entitiesObjects resolvers fs
            (fieldmap(Field_Name fld \<mapsto> fld)))"

definition RelationshipType ::
  "(string \<Rightarrow> string) \<Rightarrow> (string \<Rightarrow> EntityImpl option) \<Rightarrow> (string \<Rightarrow> 'r Object option)
     \<Rightarrow> Entity \<Rightarrow> 'r Resolvers \<Rightarrow> ('r Fields \<times> error option) outcome" where
  "RelationshipType Singular entitiesMap entitiesObjects entity resolvers =
     (case entity of
        None \<Rightarrow> Panics
      | Some e \<Rightarrow>
          let typeof = Instance e in
          if Kind typeof \<noteq> reflect_Struct then Panics
          else RelationshipType_loop Singular entitiesMap entitiesObjects resolvers
                 (StructFields typeof) Map.empty)"

section \<open>\<^verbatim>\<open>FieldType\<close> and \<^verbatim>\<open>RelationshipType\<close> on a heap of maps\<close>

text \<open>
  A Go map is a reference: a function that is handed \<^verbatim>\<open>entitiesMap\<close> could store into
  it, and its caller would see the change. To state what a call writes, the two
  functions are modelled a second time, over a heap that holds each map at an address.
  Struct fields, entities and resolvers stay values.
\<close>

datatype 'r gomap =
    EntityMap "string \<Rightarrow> EntityImpl option"
  | ObjectMap "string \<Rightarrow> 'r Object option"
  | FieldMap "'r Fields"
  | FilterMap "string \<Rightarrow> 8 word option"

type_synonym 'r heap = "'r gomap list"

text \<open>
  \<^verbatim>\<open>make\<close> puts a new map at the next free address. A store \<^verbatim>\<open>m[k] = v\<close> replaces the
  map at the address of \<open>m\<close>; a read looks the address up. The addresses in use are
  those that \<^verbatim>\<open>make\<close> returned and those of the arguments; at an address that holds no
  map of the type asked for, which Go's typing rules out, a store does nothing and a
  read finds nothing.
\<close>

definition make_map :: "'r gomap \<Rightarrow> 'r heap \<Rightarrow> nat \<times> 'r heap" where
  "make_map m h = (length h, h @ [m])"

definition store_field :: "nat \<Rightarrow> string \<Rightarrow> 'r Field \<Rightarrow> 'r heap \<Rightarrow> 'r heap" where
  "store_field a k v h =
     (if a < length h then
        (case h ! a of FieldMap m \<Rightarrow> h[a := FieldMap (m(k \<mapsto> v))] | _ \<Rightarrow> h)
      else h)"

definition store_filter :: "nat \<Rightarrow> string \<Rightarrow> 8 word \<Rightarrow> 'r heap \<Rightarrow> 'r heap" where
  "store_filter a k v h =
     (if a < length h then
        (case h ! a of FilterMap m \<Rightarrow> h[a := FilterMap (m(k \<mapsto> v))] | _ \<Rightarrow> h)
      else h)"

definition fields_at :: "'r heap \<Rightarrow> nat \<Rightarrow> 'r Fields option" where
  "fields_at h a =
     (if a < length h then (case h ! a of FieldMap m \<Rightarrow> Some m | _ \<Rightarrow> None) else None)"

definition filters_at :: "'r heap \<Rightarrow> nat \<Rightarrow> (string \<Rightarrow> 8 word option) option" where
  "filters_at h a =
     (if a < length h then (case h ! a of FilterMap m \<Rightarrow> Some m | _ \<Rightarrow> None) else None)"

definition entities_at :: "'r heap \<Rightarrow> nat \<Rightarrow> (string \<Rightarrow> EntityImpl option) option" where
  "entities_at h a =
     (if a < length h then (case h ! a of EntityMap m \<Rightarrow> Some m | _ \<Rightarrow> None) else None)"

definition objects_at :: "'r heap \<Rightarrow> nat \<Rightarrow> (string \<Rightarrow> 'r Object option) option" where
  "objects_at h a =
     (if a < length h then (case h ! a of ObjectMap m \<Rightarrow> Some m | _ \<Rightarrow> None) else None)"

text \<open>
  The loop of \<^verbatim>\<open>FieldType\<close>, with \<^verbatim>\<open>fields\<close> and \<^verbatim>\<open>filters\<close> given by their addresses. It
  returns the error that ended it, if any, and the heap it leaves.
\<close>

fun FieldType_loop_on_heap ::
  "FilterCodes \<Rightarrow> StructField list \<Rightarrow> nat \<Rightarrow> nat \<Rightarrow> 'r heap \<Rightarrow> error option \<times> 'r heap" where
  "FieldType_loop_on_heap fc [] fieldmap filters h = (None, h)"
| "FieldType_loop_on_heap fc (f # fs) fieldmap filters h =
     (case (field fc f :: error + 'r fieldDefinition) of
        Inl err \<Rightarrow>
          if err = errorNotSimpleFieldType then FieldType_loop_on_heap fc fs fieldmap filters h
          else (Some err, h)
      | Inr def \<Rightarrow>
          (case field' def of
             None \<Rightarrow> FieldType_loop_on_heap fc fs fieldmap filters h
           | Some fld \<Rightarrow>
               if Field_Name fld \<noteq> [] then
                 (let h1 = store_field fieldmap (Field_Name fld) fld h;
                      h2 = (if filter' def \<noteq> filterNone fc
                            then store_filter filters (Field_Name fld) (filter' def) h1
                            else h1)
                  in FieldType_loop_on_heap fc fs fieldmap filters h2)
               else FieldType_loop_on_heap fc fs fieldmap filters h))"

text \<open>
  The object that \<^verbatim>\<open>graphql.NewObject\<close> returns keeps the \<^verbatim>\<open>fields\<close> map it was given, by
  reference.
\<close>

record ObjectRef =
  ref_Name :: string
  ref_Description :: string
  ref_Fields :: nat

text \<open>
  \<^verbatim>\<open>FieldType\<close>: the two maps are made after the instance has been inspected (lines 28 to
  31), filled by the loop, and handed back by reference.
\<close>

definition FieldType_on_heap ::
  "FilterCodes \<Rightarrow> Entity \<Rightarrow> 'r heap \<Rightarrow> (error + (ObjectRef \<times> nat)) outcome \<times> 'r heap" where
  "FieldType_on_heap fc entity h =
     (case entity of
        None \<Rightarrow> (Panics, h)
      | Some e \<Rightarrow>
          let typeof = Instance e in
          if Kind typeof \<noteq> reflect_Struct then (Panics, h)
          else
            (let (fieldmap, h1) = make_map (FieldMap Map.empty) h;
                 (filters, h2) = make_map (FilterMap Map.empty) h1
             in case FieldType_loop_on_heap fc (StructFields typeof) fieldmap filters h2 of
                  (Some err, h3) \<Rightarrow> (Returns (Inl err), h3)
                | (None, h3) \<Rightarrow>
                    (Returns (Inr (\<lparr>ref_Name = ToLower (TypeName typeof),
                                    ref_Description = Description e,
                                    ref_Fields = fieldmap\<rparr>, filters)), h3)))"

text \<open>What the caller reads through the references that \<^verbatim>\<open>FieldType\<close> returned.\<close>

definition FieldType_result ::
  "'r heap \<Rightarrow> (error + (ObjectRef \<times> nat)) outcome
     \<Rightarrow> (error + ('r Object \<times> (string \<Rightarrow> 8 word option))) outcome" where
  "FieldType_result h r =
     (case r of
        Panics \<Rightarrow> Panics
      | Returns (Inl err) \<Rightarrow> Returns (Inl err)
      | Returns (Inr (obj, filters)) \<Rightarrow>
          (case (fields_at h (ref_Fields obj), filters_at h filters) of
             (Some fm, Some flt) \<Rightarrow>
               Returns (Inr (NewObject (ref_Name obj) (ref_Description obj) fm, flt))
           | _ \<Rightarrow> Panics))"

text \<open>
  \<open>relationship\<close> stores nothing; it reads the two registries, here at their addresses.
\<close>

definition relationship_on_heap ::
  "(string \<Rightarrow> string) \<Rightarrow> nat \<Rightarrow> nat \<Rightarrow> StructField \<Rightarrow> 'r Resolvers \<Rightarrow> 'r heap
     \<Rightarrow> (error + 'r Field) outcome" where
  "relationship_on_heap Singular entitiesMap entitiesObjects f resolvers h =
     (case (entities_at h entitiesMap, objects_at h entitiesObjects) of
        (Some em, Some eo) \<Rightarrow> relationship Singular em eo f resolvers
      | _ \<Rightarrow> Panics)"

fun RelationshipType_loop_on_heap ::
  "(string \<Rightarrow> string) \<Rightarrow> nat \<Rightarrow> nat \<Rightarrow> 'r Resolvers \<Rightarrow> StructField list \<Rightarrow> nat \<Rightarrow> 'r heap
     \<Rightarrow> error option outcome \<times> 'r heap" where
  "RelationshipType_loop_on_heap Singular entitiesMap entitiesObjects resolvers [] fieldmap h =
     (Returns None, h)"
| "RelationshipType_loop_on_heap Singular entitiesMap entitiesObjects resolvers (f # fs) fieldmap h =
     (case relationship_on_heap Singular entitiesMap entitiesObjects f resolvers h of
        Panics \<Rightarrow> (Panics, h)
      | Returns (Inl err) \<Rightarrow>
          if err = errorNotRelationshipType
          then RelationshipType_loop_on_heap Singular entitiesMap entitiesObjects resolvers fs
                 fieldmap h
          else (Returns (Some err), h)
      | Returns (Inr fld) \<Rightarrow>
          RelationshipType_loop_on_heap Singular entitiesMap entitiesObjects resolvers fs
            fieldmap (store_field fieldmap (Field_Name fld) fld h))"

definition RelationshipType_on_heap ::
  "(string \<Rightarrow> string) \<Rightarrow> nat \<Rightarrow> nat \<Rightarrow> Entity \<Rightarrow> 'r Resolvers \<Rightarrow> 'r heap
     \<Rightarrow> (nat \<times> error option) outcome \<times> 'r heap" where
  "RelationshipType_on_heap Singular entitiesMap entitiesObjects entity resolvers h =
     (case entity of
        None \<Rightarrow> (Panics, h)
      | Some e \<Rightarrow>
          let typeof = Instance e in
          if Kind typeof \<noteq> reflect_Struct then (Panics, h)
          else
            (let (fieldmap, h1) = make_map (FieldMap Map.empty) h
             in case RelationshipType_loop_on_heap Singular entitiesMap entitiesObjects
                       resolvers (StructFields typeof) fieldmap h1 of
                  (Panics, h2) \<Rightarrow> (Panics, h2)
                | (Returns err, h2) \<Rightarrow> (Returns (fieldmap, err), h2)))"

text \<open>What the caller reads through the reference that \<^verbatim>\<open>RelationshipType\<close> returned.\<close>

definition RelationshipType_result ::
  "'r heap \<Rightarrow> (nat \<times> error option) outcome \<Rightarrow> ('r Fields \<times> error option) outcome" where
  "RelationshipType_result h r =
     (case r of
        Panics \<Rightarrow> Panics
      | Returns (fieldmap, err) \<Rightarrow>
          (case fields_at h fieldmap of Some fm \<Rightarrow> Returns (fm, err) | None \<Rightarrow> Panics))"

text \<open>Two heaps that hold the same maps everywhere but at the addresses in \<open>A\<close>.\<close>

definition unchanged_except :: "nat set \<Rightarrow> 'r heap \<Rightarrow> 'r heap \<Rightarrow> bool" where
  "unchanged_except A h h' \<longleftrightarrow>
     length h' = length h \<and> (\<forall>a<length h. a \<notin> A \<longrightarrow> h' ! a = h ! a)"

section \<open>Sample inputs\<close>

text \<open>
  The fields of a blog post entity, as reflection presents them:
  \<^verbatim>\<open>
  type Post struct {
      Title    string    `json:"title" filterable:"true"`
      Views    int64     `filterable:"yes"`
      Created  time.Time `json:"created_at" filterable:"1"`
      Author   User
      Comments []Comment
  }
  \<close>
  and the field \<^verbatim>\<open>Parent *Post\<close> of a draft.
\<close>

definition string_type :: rtype where
  "string_type = \<lparr>Kind = reflect_String, PkgPath = [], TypeName = ''string''\<rparr>"

definition int64_type :: rtype where
  "int64_type = \<lparr>Kind = reflect_Int64, PkgPath = [], TypeName = ''int64''\<rparr>"

definition time_type :: rtype where
  "time_type = \<lparr>Kind = reflect_Struct, PkgPath = ''time'', TypeName = ''Time''\<rparr>"

definition Title_field :: StructField where
  "Title_field = \<lparr>Name = ''Title'', Type = string_type,
     Tag = [(''json'', ''title''), (''filterable'', ''true'')]\<rparr>"

definition Views_field :: StructField where
  "Views_field = \<lparr>Name = ''Views'', Type = int64_type, Tag = [(''filterable'', ''yes'')]\<rparr>"

definition Created_field :: StructField where
  "Created_field = \<lparr>Name = ''Created'', Type = time_type,
     Tag = [(''json'', ''created_at''), (''filterable'', ''1'')]\<rparr>"

definition Author_field :: StructField where
  "Author_field = \<lparr>Name = ''Author'',
     Type = \<lparr>Kind = reflect_Struct, PkgPath = ''blog'', TypeName = ''User''\<rparr>, Tag = []\<rparr>"

definition Comments_field :: StructField where
  "Comments_field = \<lparr>Name = ''Comments'',
     Type = \<lparr>Kind = reflect_Slice, PkgPath = [], TypeName = []\<rparr>, Tag = []\<rparr>"

definition Parent_field :: StructField where
  "Parent_field = \<lparr>Name = ''Parent'',
     Type = \<lparr>Kind = reflect_Pointer, PkgPath = [], TypeName = []\<rparr>, Tag = []\<rparr>"

text \<open>The filter codes numbered from 0 in the order of their names.\<close>

definition codes :: FilterCodes where
  "codes = \<lparr>filterNone = 0, filterString = 1, filterBool = 2, filterInt = 3,
     filterFloat = 4, filterDate = 5\<rparr>"

text \<open>
  A stand-in for \<^verbatim>\<open>inflection.Singular\<close> that drops one final \<open>s\<close>, resolvers that
  record which method built them and for which entity, and the registry of the blog.
\<close>

definition singular_s :: "string \<Rightarrow> string" where
  "singular_s w = (if w \<noteq> [] \<and> last w = CHR ''s'' then butlast w else w)"

datatype sample_resolver = resolve_single Entity | resolve_listing Entity

definition sample_resolvers :: "sample_resolver Resolvers" where
  "sample_resolvers =
     Some \<lparr>Single = (\<lambda>e. Some (resolve_single e)), Listing = (\<lambda>e. Some (resolve_listing e))\<rparr>"

definition struct_type :: "string \<Rightarrow> StructField list \<Rightarrow> InstanceType" where
  "struct_type name fs =
     \<lparr>Kind = reflect_Struct, PkgPath = ''blog'', TypeName = name, StructFields = fs\<rparr>"

definition User_entity :: EntityImpl where
  "User_entity = \<lparr>Instance = struct_type ''User'' [], Description = ''a user''\<rparr>"

definition Comment_entity :: EntityImpl where
  "Comment_entity = \<lparr>Instance = struct_type ''Comment'' [], Description = ''a comment''\<rparr>"

definition Post_entity :: EntityImpl where
  "Post_entity =
     \<lparr>Instance = struct_type ''Post''
        [Title_field, Views_field, Created_field, Author_field, Comments_field],
      Description = ''a blog post''\<rparr>"

definition user_object :: "sample_resolver Object" where
  "user_object = NewObject ''user'' ''a user'' Map.empty"

definition comment_object :: "sample_resolver Object" where
  "comment_object = NewObject ''comment'' ''a comment'' Map.empty"

definition blog_entitiesMap :: "string \<Rightarrow> EntityImpl option" where
  "blog_entitiesMap = [''author'' \<mapsto> User_entity, ''comment'' \<mapsto> Comment_entity]"

definition blog_entitiesObjects :: "string \<Rightarrow> sample_resolver Object option" where
  "blog_entitiesObjects = [''author'' \<mapsto> user_object, ''comment'' \<mapsto> comment_object]"

text \<open>A draft that also points at its parent; the pointer field has no GraphQL type.\<close>

definition Draft_entity :: EntityImpl where
  "Draft_entity =
     \<lparr>Instance = struct_type ''Draft'' [Title_field, Author_field, Parent_field, Views_field],
      Description = ''a draft''\<rparr>"

text \<open>
  A field whose \<^verbatim>\<open>json\<close> name has capitals, and an article with a slice of strings, for
  which the blog registers no entity:
  \<^verbatim>\<open>
      Updated time.Time `json:"UpdatedAt"`

  type Article struct {
      Title string   `json:"title" filterable:"true"`
      Tags  []string
  }
  \<close>
\<close>

definition Updated_field :: StructField where
  "Updated_field = \<lparr>Name = ''Updated'', Type = time_type, Tag = [(''json'', ''UpdatedAt'')]\<rparr>"

definition Tags_field :: StructField where
  "Tags_field = \<lparr>Name = ''Tags'',
     Type = \<lparr>Kind = reflect_Slice, PkgPath = [], TypeName = []\<rparr>, Tag = []\<rparr>"

definition Article_entity :: EntityImpl where
  "Article_entity =
     \<lparr>Instance = struct_type ''Article'' [Title_field, Tags_field],
      Description = ''an article''\<rparr>"

text \<open>Registries in which nothing is registered.\<close>

definition no_entities :: "string \<Rightarrow> EntityImpl option" where
  "no_entities = Map.empty"

definition no_objects :: "string \<Rightarrow> sample_resolver Object option" where
  "no_objects = Map.empty"

text \<open>
  Two more structs: a page whose only field has an empty \<^verbatim>\<open>json\<close> name, and an item
  two of whose fields come out under the same name.
  \<^verbatim>\<open>
  type Page struct {
      Slug string `json:"" filterable:"true"`
  }
  type Item struct {
      Code string `json:"id" filterable:"true"`
      ID   int64  `filterable:"true"`
  }
  \<close>
\<close>

definition Slug_field :: StructField where
  "Slug_field = \<lparr>Name = ''Slug'', Type = string_type,
     Tag = [(''json'', []), (''filterable'', ''true'')]\<rparr>"

definition Page_entity :: EntityImpl where
  "Page_entity = \<lparr>Instance = struct_type ''Page'' [Slug_field], Description = ''a page''\<rparr>"

definition Code_field :: StructField where
  "Code_field = \<lparr>Name = ''Code'', Type = string_type,
     Tag = [(''json'', ''id''), (''filterable'', ''true'')]\<rparr>"

definition ID_field :: StructField where
  "ID_field = \<lparr>Name = ''ID'', Type = int64_type, Tag = [(''filterable'', ''true'')]\<rparr>"

definition Item_entity :: EntityImpl where
  "Item_entity =
     \<lparr>Instance = struct_type ''Item'' [Code_field, ID_field], Description = ''an item''\<rparr>"

text \<open>The two maps of \<^verbatim>\<open>FieldType\<close> as \<^verbatim>\<open>make\<close> leaves them.\<close>

definition no_fields :: "unit Fields" where
  "no_fields = Map.empty"

definition no_filters :: "string \<Rightarrow> 8 word option" where
  "no_filters = Map.empty"

text \<open>
  A heap with the two registries of the blog at addresses 0 and 1, and the relationship
  fields of a post.
\<close>

definition blog_heap :: "sample_resolver heap" where
  "blog_heap = [EntityMap blog_entitiesMap, ObjectMap blog_entitiesObjects]"

definition blog_relationships :: "sample_resolver Fields" where
  "blog_relationships =
     [''author'' \<mapsto> Field (ObjectPtr (Some user_object)) ''author''
        ''Get a single user (a user) by id or slug''
        (Some (resolve_single (Some User_entity))),
      ''comment'' \<mapsto> Field (NewList (Some comment_object)) ''comment''
        ''Get a list of comment (a comment) according to filters''
        (Some (resolve_listing (Some Comment_entity)))]"

section \<open>Properties\<close>

subsection \<open>What \<open>field\<close> and the loops do, step by step\<close>

lemma field_error_cases:
  "field fc f = Inl err \<Longrightarrow> err = errorNotSimpleFieldType \<or> err = errorNotRelationshipType"
  by (auto simp: field_def Let_def split: if_splits)

lemma FieldType_loop_aborts:
  fixes fieldmap :: "'r Fields"
  assumes "f \<in> set fs"
    and "(field fc f :: error + 'r fieldDefinition) = Inl errorNotRelationshipType"
  shows "FieldType_loop fc fs fieldmap filters = Inl errorNotRelationshipType"
  using assms
proof (induction fs arbitrary: fieldmap filters)
  case Nil
  then show ?case by simp
next
  case (Cons g gs)
  show ?case
  proof (cases "field fc g :: error + 'r fieldDefinition")
    case (Inl err)
    with field_error_cases [of fc g err] Cons show ?thesis by auto
  next
    case (Inr d)
    with Cons have "f \<in> set gs" by auto
    with Cons Inr show ?thesis by (simp split: option.splits)
  qed
qed

lemma FieldType_loop_fields_origin:
  fixes fieldmap :: "'r Fields"
  assumes "FieldType_loop fc fs fieldmap filters = Inr (fieldmap', filters')"
    and "fieldmap' k = Some fld"
  shows "fieldmap k = Some fld
    \<or> (\<exists>g\<in>set fs. \<exists>d. field fc g = Inr d \<and> field' d = Some fld \<and> Field_Name fld = k)"
  using assms
proof (induction fs arbitrary: fieldmap filters)
  case Nil
  then show ?case by simp
next
  case (Cons g gs)
  show ?case
  proof (cases "field fc g :: error + 'r fieldDefinition")
    case (Inl err)
    with Cons.prems have "FieldType_loop fc gs fieldmap filters = Inr (fieldmap', filters')"
      by (simp split: if_splits)
    from Cons.IH [OF this Cons.prems(2)] show ?thesis by auto
  next
    case (Inr d)
    show ?thesis
    proof (cases "field' d")
      case None
      with Inr Cons.prems have "FieldType_loop fc gs fieldmap filters = Inr (fieldmap', filters')"
        by simp
      from Cons.IH [OF this Cons.prems(2)] show ?thesis by auto
    next
      case (Some new)
      show ?thesis
      proof (cases "Field_Name new = []")
        case True
        with Inr Some Cons.prems
        have "FieldType_loop fc gs fieldmap filters = Inr (fieldmap', filters')"
          by simp
        from Cons.IH [OF this Cons.prems(2)] show ?thesis by auto
      next
        case False
        with Inr Some Cons.prems obtain filters1 where
          "FieldType_loop fc gs (fieldmap(Field_Name new \<mapsto> new)) filters1
             = Inr (fieldmap', filters')"
          by (simp split: if_splits)
        from Cons.IH [OF this Cons.prems(2)] Inr Some show ?thesis
          by (auto split: if_splits)
      qed
    qed
  qed
qed

lemma relationship_field_Inl:
  "relationship_field entitiesMap entitiesObjects resolvers kind name = Returns (Inl err)
   \<Longrightarrow> err = errorNotRelationshipType \<and> kind \<noteq> reflect_Struct \<and> kind \<noteq> reflect_Slice"
  by (auto simp: relationship_field_def Let_def split: if_splits outcome.splits)

lemma relationship_field_Inr:
  assumes "relationship_field entitiesMap entitiesObjects resolvers kind name = Returns (Inr fld)"
  shows "\<exists>tn e r. entitiesMap name = Some e \<and> resolvers = Some r \<and> Field_Name fld = name \<and>
    (kind = reflect_Struct \<and> Output_Name (ObjectPtr (entitiesObjects name)) = Returns tn
       \<and> fld = Field (ObjectPtr (entitiesObjects name)) name
                 (''Get a single '' @ tn @ '' ('' @ Description e @ '') by id or slug'')
                 (Single r (Some e))
     \<or> kind = reflect_Slice \<and> Output_Name (NewList (entitiesObjects name)) = Returns tn
       \<and> fld = Field (NewList (entitiesObjects name)) name
                 (''Get a list of '' @ tn @ '' ('' @ Description e @ '') according to filters'')
                 (Listing r (Some e)))"
  using assms
  by (auto simp: relationship_field_def Let_def Entity_Description_def call_resolver_def
      split: if_splits outcome.splits option.splits)

lemma relationship_unknown_type_iff:
  "relationship Singular entitiesMap entitiesObjects f resolvers
     = Returns (Inl errorUnknownFieldType)
   \<longleftrightarrow> Kind (Type f) = reflect_Struct \<and> fulltype (Type f) \<noteq> ''time.Time''
       \<and> (entitiesMap (ToLower (Name f)) = None \<or> entitiesObjects (ToLower (Name f)) = None)"
  by (auto simp: relationship_def Let_def dest: relationship_field_Inl)

lemma field_accepts:
  assumes "field fc g = Inr d"
  shows "\<exists>t. d = scalar_definition g t (spec_filter_code fc g)"
  using assms
  by (auto simp: field_def spec_filter_code_def Let_def split: if_splits)

lemma spec_filter_code_nonzero:
  "zero_is_filterNone fc \<Longrightarrow> spec_filter_code fc g \<noteq> 0"
  by (simp add: zero_is_filterNone_def spec_filter_code_def)

lemma FieldType_loop_accepted:
  fixes fieldmap :: "'r Fields"
  assumes "zero_is_filterNone fc" and "(field fc g :: error + 'r fieldDefinition) = Inr d"
  shows "\<exists>fld. FieldType_loop fc (g # gs) fieldmap filters =
     (if output_name g = [] then FieldType_loop fc gs fieldmap filters
      else FieldType_loop fc gs (fieldmap(output_name g \<mapsto> fld))
             (if tag_filterable g then filters(output_name g \<mapsto> spec_filter_code fc g)
              else filters))"
proof -
  from field_accepts [OF assms(2)] obtain t where
    d: "d = scalar_definition g t (spec_filter_code fc g)" ..
  from assms(1) have none: "filterNone fc = 0" by (simp add: zero_is_filterNone_def)
  from d none assms(2) spec_filter_code_nonzero [OF assms(1), of g] show ?thesis
    by (auto simp: scalar_definition_def)
qed

lemma FieldType_loop_rejected:
  fixes fieldmap :: "'r Fields"
  assumes "(field fc g :: error + 'r fieldDefinition) = Inl err"
    and "FieldType_loop fc (g # gs) fieldmap filters = Inr result"
  shows "FieldType_loop fc gs fieldmap filters = Inr result"
  using assms by (simp split: if_splits)

lemma FieldType_loop_filters_dom:
  fixes fieldmap :: "'r Fields"
  assumes "zero_is_filterNone fc"
    and "FieldType_loop fc fs fieldmap filters = Inr (fieldmap', filters')"
  shows "dom filters' = dom filters \<union>
     {output_name g | g. g \<in> set fs \<and> (\<exists>d. (field fc g :: error + 'r fieldDefinition) = Inr d)
        \<and> tag_filterable g \<and> output_name g \<noteq> []}"
  using assms(2)
proof (induction fs arbitrary: fieldmap filters)
  case Nil
  then show ?case by simp
next
  case (Cons g gs)
  let ?keep = "\<lambda>h. (\<exists>d. (field fc h :: error + 'r fieldDefinition) = Inr d)
        \<and> tag_filterable h \<and> output_name h \<noteq> []"
  let ?names = "\<lambda>hs. {output_name h | h. h \<in> set hs \<and> ?keep h}"
  have names_Cons: "?names (g # gs) = (if ?keep g then insert (output_name g) (?names gs)
      else ?names gs)"
    by auto
  show ?case
  proof (cases "field fc g :: error + 'r fieldDefinition")
    case (Inl err)
    from Inl have "\<not> ?keep g" by simp
    with names_Cons have "?names (g # gs) = ?names gs" by simp
    with Cons.IH [OF FieldType_loop_rejected [OF Inl Cons.prems]]
    show ?thesis by simp
  next
    case (Inr d)
    from FieldType_loop_accepted [OF assms(1) Inr, of gs fieldmap filters]
    obtain fld where step: "FieldType_loop fc (g # gs) fieldmap filters =
     (if output_name g = [] then FieldType_loop fc gs fieldmap filters
      else FieldType_loop fc gs (fieldmap(output_name g \<mapsto> fld))
             (if tag_filterable g then filters(output_name g \<mapsto> spec_filter_code fc g)
              else filters))" ..
    show ?thesis
    proof (cases "tag_filterable g \<and> output_name g \<noteq> []")
      case True
      with step Cons.prems
      have "FieldType_loop fc gs (fieldmap(output_name g \<mapsto> fld))
                (filters(output_name g \<mapsto> spec_filter_code fc g)) = Inr (fieldmap', filters')"
        by simp
      from Cons.IH [OF this]
      have ih: "dom filters' =
          dom (filters(output_name g \<mapsto> spec_filter_code fc g)) \<union> ?names gs" .
      have "dom (filters(output_name g \<mapsto> spec_filter_code fc g))
          = insert (output_name g) (dom filters)"
        by simp
      with ih have "dom filters' = insert (output_name g) (dom filters) \<union> ?names gs"
        by (simp only:)
      moreover from True Inr have "?keep g" by simp
      with names_Cons have "?names (g # gs) = insert (output_name g) (?names gs)" by simp
      ultimately show ?thesis by simp
    next
      case False
      with step Cons.prems obtain fieldmap1 where
        "FieldType_loop fc gs fieldmap1 filters = Inr (fieldmap', filters')"
        by (auto split: if_splits)
      from Cons.IH [OF this] have "dom filters' = dom filters \<union> ?names gs" .
      moreover from False have "\<not> ?keep g" by simp
      with names_Cons have "?names (g # gs) = ?names gs" by simp
      ultimately show ?thesis by simp
    qed
  qed
qed

lemma FieldType_loop_filters_origin:
  fixes fieldmap :: "'r Fields"
  assumes "zero_is_filterNone fc"
    and "FieldType_loop fc fs fieldmap filters = Inr (fieldmap', filters')"
    and "filters' k = Some c"
  shows "filters k = Some c
    \<or> (\<exists>g\<in>set fs. (\<exists>d. (field fc g :: error + 'r fieldDefinition) = Inr d)
          \<and> tag_filterable g \<and> output_name g = k \<and> c = spec_filter_code fc g)"
  using assms(2)
proof (induction fs arbitrary: fieldmap filters)
  case Nil
  with assms(3) show ?case by simp
next
  case (Cons g gs)
  show ?case
  proof (cases "field fc g :: error + 'r fieldDefinition")
    case (Inl err)
    from Cons.IH [OF FieldType_loop_rejected [OF Inl Cons.prems]]
    show ?thesis by auto
  next
    case (Inr d)
    from FieldType_loop_accepted [OF assms(1) Inr, of gs fieldmap filters]
    obtain fld where step: "FieldType_loop fc (g # gs) fieldmap filters =
     (if output_name g = [] then FieldType_loop fc gs fieldmap filters
      else FieldType_loop fc gs (fieldmap(output_name g \<mapsto> fld))
             (if tag_filterable g then filters(output_name g \<mapsto> spec_filter_code fc g)
              else filters))" ..
    show ?thesis
    proof (cases "output_name g = []")
      case True
      with step Cons.prems have "FieldType_loop fc gs fieldmap filters = Inr (fieldmap', filters')"
        by simp
      from Cons.IH [OF this] show ?thesis by auto
    next
      case False
      show ?thesis
      proof (cases "tag_filterable g")
        case True
        with step False Cons.prems
        have "FieldType_loop fc gs (fieldmap(output_name g \<mapsto> fld))
                (filters(output_name g \<mapsto> spec_filter_code fc g)) = Inr (fieldmap', filters')"
          by simp
        from Cons.IH [OF this] True Inr show ?thesis by (auto split: if_splits)
      next
        case no: False
        with step False Cons.prems
        have "FieldType_loop fc gs (fieldmap(output_name g \<mapsto> fld)) filters
                = Inr (fieldmap', filters')"
          by simp
        from Cons.IH [OF this] show ?thesis by auto
      qed
    qed
  qed
qed

text \<open>What \<open>lower_byte\<close> does to a byte, said without it.\<close>

lemma map_of_zip_or_unchanged:
  assumes "length xs = length ys"
  shows "(c, (case map_of (zip xs ys) c of Some l \<Rightarrow> l | None \<Rightarrow> c)) \<in> set (zip xs ys)
    \<or> c \<notin> set xs \<and> (case map_of (zip xs ys) c of Some l \<Rightarrow> l | None \<Rightarrow> c) = c"
proof (cases "map_of (zip xs ys) c")
  case None
  with assms have "c \<notin> set xs"
    by (metis map_of_eq_None_iff map_fst_zip set_map)
  with None show ?thesis by simp
next
  case (Some l)
  then have "(c, l) \<in> set (zip xs ys)" by (rule map_of_SomeD)
  with Some show ?thesis by simp
qed

lemma lower_byte_cases:
  "(c, lower_byte c) \<in> set (zip ''ABCDEFGHIJKLMNOPQRSTUVWXYZ'' ''abcdefghijklmnopqrstuvwxyz'')
   \<or> c \<notin> set ''ABCDEFGHIJKLMNOPQRSTUVWXYZ'' \<and> lower_byte c = c"
  unfolding lower_byte_def by (rule map_of_zip_or_unchanged) simp

lemma FieldType_loop_append:
  fixes fieldmap :: "'r Fields"
  shows "FieldType_loop fc (xs @ ys) fieldmap filters =
     (case FieldType_loop fc xs fieldmap filters of
        Inl err \<Rightarrow> Inl err
      | Inr (fieldmap1, filters1) \<Rightarrow> FieldType_loop fc ys fieldmap1 filters1)"
proof (induction xs arbitrary: fieldmap filters)
  case Nil
  show ?case by simp
next
  case (Cons x xs)
  show ?case
  proof (cases "field fc x :: error + 'r fieldDefinition")
    case (Inl err)
    with Cons show ?thesis by simp
  next
    case (Inr d)
    show ?thesis
    proof (cases "\<exists>fld. field' d = Some fld \<and> Field_Name fld \<noteq> []")
      case False
      with Inr Cons show ?thesis by (auto split: option.splits)
    next
      case True
      then obtain fld where fld: "field' d = Some fld" "Field_Name fld \<noteq> []" by blast
      define fieldmap2 where "fieldmap2 = fieldmap(Field_Name fld \<mapsto> fld)"
      define filters2 where "filters2 = (if filter' d \<noteq> filterNone fc
          then filters(Field_Name fld \<mapsto> filter' d) else filters)"
      have step: "FieldType_loop fc (x # zs) fieldmap filters
          = FieldType_loop fc zs fieldmap2 filters2" for zs
        using Inr fld by (simp add: fieldmap2_def filters2_def)
      have "FieldType_loop fc ((x # xs) @ ys) fieldmap filters
          = FieldType_loop fc (xs @ ys) fieldmap2 filters2"
        using step [of "xs @ ys"] by simp
      also have "\<dots> = (case FieldType_loop fc xs fieldmap2 filters2 of
            Inl err \<Rightarrow> Inl err
          | Inr (fieldmap1, filters1) \<Rightarrow> FieldType_loop fc ys fieldmap1 filters1)"
        by (rule Cons)
      also have "FieldType_loop fc xs fieldmap2 filters2
          = FieldType_loop fc (x # xs) fieldmap filters"
        by (rule step [symmetric])
      finally show ?thesis .
    qed
  qed
qed

lemma FieldType_loop_last_wins:
  fixes fieldmap :: "'r Fields"
  assumes ok: "zero_is_filterNone fc"
    and run: "FieldType_loop fc (pre @ f # post) fieldmap filters = Inr (fieldmap', filters')"
    and f: "(field fc f :: error + 'r fieldDefinition) = Inr d" "tag_filterable f"
      "output_name f \<noteq> []"
    and later: "\<forall>g\<in>set post. (\<exists>d. (field fc g :: error + 'r fieldDefinition) = Inr d)
        \<and> tag_filterable g \<longrightarrow> output_name g \<noteq> output_name f"
  shows "filters' (output_name f) = Some (spec_filter_code fc f)"
proof -
  from run obtain fieldmap1 filters1 where
    rest: "FieldType_loop fc (f # post) fieldmap1 filters1 = Inr (fieldmap', filters')"
    by (auto simp: FieldType_loop_append split: sum.splits)
  from FieldType_loop_accepted [OF ok f(1), of post fieldmap1 filters1] f(2,3) rest
  obtain fld where tail: "FieldType_loop fc post (fieldmap1(output_name f \<mapsto> fld))
      (filters1(output_name f \<mapsto> spec_filter_code fc f)) = Inr (fieldmap', filters')"
    by auto
  from FieldType_loop_filters_dom [OF ok tail]
  have "output_name f \<in> dom filters'" by simp
  then obtain c where c: "filters' (output_name f) = Some c" by blast
  from FieldType_loop_filters_origin [OF ok tail c] later
  have "(filters1(output_name f \<mapsto> spec_filter_code fc f)) (output_name f) = Some c"
    by blast
  then have "c = spec_filter_code fc f" by simp
  with c show ?thesis by simp
qed

text \<open>The model on the heap, step by step, against the model on values.\<close>

lemma unchanged_except_refl: "unchanged_except A h h"
  by (simp add: unchanged_except_def)

lemma unchanged_except_trans:
  "unchanged_except A h h1 \<Longrightarrow> unchanged_except A h1 h2 \<Longrightarrow> unchanged_except A h h2"
  by (simp add: unchanged_except_def)

lemma store_field_frame: "a \<in> A \<Longrightarrow> unchanged_except A h (store_field a k v h)"
  by (auto simp: unchanged_except_def store_field_def nth_list_update split: gomap.splits)

lemma store_filter_frame: "a \<in> A \<Longrightarrow> unchanged_except A h (store_filter a k v h)"
  by (auto simp: unchanged_except_def store_filter_def nth_list_update split: gomap.splits)

lemma fields_at_store_field:
  "fields_at h a = Some m \<Longrightarrow> fields_at (store_field a k v h) a = Some (m(k \<mapsto> v))"
  by (auto simp: fields_at_def store_field_def split: if_splits gomap.splits)

lemma filters_at_store_filter:
  "filters_at h a = Some m \<Longrightarrow> filters_at (store_filter a k v h) a = Some (m(k \<mapsto> v))"
  by (auto simp: filters_at_def store_filter_def split: if_splits gomap.splits)

lemma filters_at_store_field:
  "filters_at h b = Some m \<Longrightarrow> filters_at (store_field a k v h) b = Some m"
  by (auto simp: filters_at_def store_field_def nth_list_update split: if_splits gomap.splits)

lemma fields_at_store_filter:
  "fields_at h b = Some m \<Longrightarrow> fields_at (store_filter a k v h) b = Some m"
  by (auto simp: fields_at_def store_filter_def nth_list_update split: if_splits gomap.splits)

lemma entities_at_store_field:
  "entities_at h b = Some m \<Longrightarrow> entities_at (store_field a k v h) b = Some m"
  by (auto simp: entities_at_def store_field_def nth_list_update split: if_splits gomap.splits)

lemma objects_at_store_field:
  "objects_at h b = Some m \<Longrightarrow> objects_at (store_field a k v h) b = Some m"
  by (auto simp: objects_at_def store_field_def nth_list_update split: if_splits gomap.splits)

lemma FieldType_loop_on_heap_refines:
  fixes h :: "'r heap"
  assumes "fields_at h fa = Some fm" and "filters_at h fla = Some flt"
    and "FieldType_loop_on_heap fc fs fa fla h = (r, h')"
  shows "unchanged_except {fa, fla} h h'
    \<and> (\<exists>fm' flt'. fields_at h' fa = Some fm' \<and> filters_at h' fla = Some flt'
          \<and> FieldType_loop fc fs fm flt
              = (case r of Some err \<Rightarrow> Inl err | None \<Rightarrow> Inr (fm', flt')))"
  using assms
proof (induction fs arbitrary: h fm flt)
  case Nil
  then show ?case by (auto simp: unchanged_except_refl)
next
  case (Cons g gs)
  show ?case
  proof (cases "field fc g :: error + 'r fieldDefinition")
    case (Inl err)
    show ?thesis
    proof (cases "err = errorNotSimpleFieldType")
      case True
      with Inl Cons.prems have "FieldType_loop_on_heap fc gs fa fla h = (r, h')" by simp
      from Cons.IH [OF Cons.prems(1,2) this] Inl True show ?thesis by simp
    next
      case False
      with Inl Cons.prems show ?thesis by (auto simp: unchanged_except_refl)
    qed
  next
    case (Inr d)
    show ?thesis
    proof (cases "field' d")
      case None
      with Inr Cons.prems have "FieldType_loop_on_heap fc gs fa fla h = (r, h')" by simp
      from Cons.IH [OF Cons.prems(1,2) this] Inr None show ?thesis by simp
    next
      case (Some fld)
      show ?thesis
      proof (cases "Field_Name fld = []")
        case True
        with Inr Some Cons.prems have "FieldType_loop_on_heap fc gs fa fla h = (r, h')"
          by simp
        from Cons.IH [OF Cons.prems(1,2) this] Inr Some True show ?thesis by simp
      next
        case False
        define h1 where "h1 = store_field fa (Field_Name fld) fld h"
        define h2 where "h2 = (if filter' d \<noteq> filterNone fc
                            then store_filter fla (Field_Name fld) (filter' d) h1 else h1)"
        define flt2 where "flt2 = (if filter' d \<noteq> filterNone fc
                            then flt(Field_Name fld \<mapsto> filter' d) else flt)"
        from Inr Some False Cons.prems(3)
        have run: "FieldType_loop_on_heap fc gs fa fla h2 = (r, h')"
          by (simp add: h1_def h2_def Let_def split: if_splits)
        have f2: "fields_at h2 fa = Some (fm(Field_Name fld \<mapsto> fld))"
          using Cons.prems(1)
          by (simp add: h1_def h2_def fields_at_store_field fields_at_store_filter)
        have l2: "filters_at h2 fla = Some flt2"
          using Cons.prems(2)
          by (simp add: h1_def h2_def flt2_def filters_at_store_field filters_at_store_filter)
        have frame: "unchanged_except {fa, fla} h h2"
          unfolding h1_def h2_def
          by (auto intro: unchanged_except_trans store_field_frame store_filter_frame)
        have pure: "FieldType_loop fc (g # gs) fm flt
            = FieldType_loop fc gs (fm(Field_Name fld \<mapsto> fld)) flt2"
          using Inr Some False by (simp add: flt2_def)
        from Cons.IH [OF f2 l2 run] obtain fm' flt' where
          rest: "unchanged_except {fa, fla} h2 h'"
          and maps: "fields_at h' fa = Some fm'" "filters_at h' fla = Some flt'"
          and loop: "FieldType_loop fc gs (fm(Field_Name fld \<mapsto> fld)) flt2
              = (case r of Some err \<Rightarrow> Inl err | None \<Rightarrow> Inr (fm', flt'))"
          by blast
        from pure loop have "FieldType_loop fc (g # gs) fm flt
              = (case r of Some err \<Rightarrow> Inl err | None \<Rightarrow> Inr (fm', flt'))"
          by (simp only:)
        with unchanged_except_trans [OF frame rest] maps show ?thesis by blast
      qed
    qed
  qed
qed

lemma relationship_on_heap_reads:
  "entities_at h ema = Some em \<Longrightarrow> objects_at h eoa = Some eo
   \<Longrightarrow> relationship_on_heap Singular ema eoa f resolvers h
       = relationship Singular em eo f resolvers"
  by (simp add: relationship_on_heap_def)

lemma RelationshipType_loop_on_heap_refines:
  fixes h :: "'r heap"
  assumes "entities_at h ema = Some em" and "objects_at h eoa = Some eo"
    and "fields_at h fa = Some fm"
    and "RelationshipType_loop_on_heap Singular ema eoa resolvers fs fa h = (r, h')"
  shows "unchanged_except {fa} h h'
    \<and> (\<exists>fm'. fields_at h' fa = Some fm'
          \<and> RelationshipType_loop Singular em eo resolvers fs fm
              = (case r of Panics \<Rightarrow> Panics | Returns err \<Rightarrow> Returns (fm', err)))"
  using assms
proof (induction fs arbitrary: h fm)
  case Nil
  then show ?case by (auto simp: unchanged_except_refl)
next
  case (Cons g gs)
  note reads = relationship_on_heap_reads [OF Cons.prems(1,2), of Singular g resolvers]
  show ?case
  proof (cases "relationship Singular em eo g resolvers")
    case Panics
    with reads Cons.prems show ?thesis by (auto simp: unchanged_except_refl)
  next
    case (Returns res)
    show ?thesis
    proof (cases res)
      case (Inl err)
      show ?thesis
      proof (cases "err = errorNotRelationshipType")
        case True
        with Inl Returns reads Cons.prems(4)
        have "RelationshipType_loop_on_heap Singular ema eoa resolvers gs fa h = (r, h')"
          by simp
        from Cons.IH [OF Cons.prems(1,2,3) this] Inl Returns True show ?thesis by simp
      next
        case False
        with Inl Returns reads Cons.prems show ?thesis
          by (auto simp: unchanged_except_refl)
      qed
    next
      case (Inr fld)
      define h1 where "h1 = store_field fa (Field_Name fld) fld h"
      from Inr Returns reads Cons.prems(4)
      have run: "RelationshipType_loop_on_heap Singular ema eoa resolvers gs fa h1 = (r, h')"
        by (simp add: h1_def)
      have em1: "entities_at h1 ema = Some em" and eo1: "objects_at h1 eoa = Some eo"
        and f1: "fields_at h1 fa = Some (fm(Field_Name fld \<mapsto> fld))"
        using Cons.prems(1,2,3)
        by (simp_all add: h1_def entities_at_store_field objects_at_store_field
            fields_at_store_field)
      have frame: "unchanged_except {fa} h h1"
        unfolding h1_def by (simp add: store_field_frame)
      have pure: "RelationshipType_loop Singular em eo resolvers (g # gs) fm
          = RelationshipType_loop Singular em eo resolvers gs (fm(Field_Name fld \<mapsto> fld))"
        using Inr Returns by simp
      from Cons.IH [OF em1 eo1 f1 run] obtain fm' where
        rest: "unchanged_except {fa} h1 h'"
        and maps: "fields_at h' fa = Some fm'"
        and loop: "RelationshipType_loop Singular em eo resolvers gs
                     (fm(Field_Name fld \<mapsto> fld))
              = (case r of Panics \<Rightarrow> Panics | Returns err \<Rightarrow> Returns (fm', err))"
        by blast
      from pure loop have "RelationshipType_loop Singular em eo resolvers (g # gs) fm
              = (case r of Panics \<Rightarrow> Panics | Returns err \<Rightarrow> Returns (fm', err))"
        by (simp only:)
      with unchanged_except_trans [OF frame rest] maps show ?thesis by blast
    qed
  qed
qed

lemma frame_keeps_old_maps:
  assumes "unchanged_except A (h @ new) h'" and "\<forall>a\<in>A. length h \<le> a"
  shows "take (length h) h' = h"
proof (rule nth_equalityI)
  from assms(1) show "length (take (length h) h') = length h"
    by (simp add: unchanged_except_def)
next
  fix i assume "i < length (take (length h) h')"
  then have i: "i < length h" by simp
  with assms(2) have "i \<notin> A" by auto
  with assms(1) i have "h' ! i = (h @ new) ! i"
    by (simp add: unchanged_except_def)
  with i show "take (length h) h' ! i = h ! i"
    by (simp add: nth_append)
qed

lemma FieldType_on_heap_refines:
  fixes h :: "'r heap"
  assumes "FieldType_on_heap fc entity h = (r, h')"
  shows "take (length h) h' = h \<and> FieldType_result h' r = FieldType fc entity"
proof (cases "\<exists>e. entity = Some e \<and> Kind (Instance e) = reflect_Struct")
  case False
  with assms show ?thesis
    by (auto simp: FieldType_on_heap_def FieldType_def FieldType_result_def Let_def
        split: option.splits)
next
  case True
  then obtain e where e: "entity = Some e" "Kind (Instance e) = reflect_Struct" by blast
  define h2 :: "'r heap" where "h2 = h @ [FieldMap Map.empty, FilterMap Map.empty]"
  define fa where "fa = length h"
  define fla where "fla = Suc (length h)"
  obtain err h3 where
    loop: "FieldType_loop_on_heap fc (StructFields (Instance e)) fa fla h2 = (err, h3)"
    by fastforce
  have f2: "fields_at h2 fa = Some Map.empty" and l2: "filters_at h2 fla = Some Map.empty"
    by (simp_all add: h2_def fa_def fla_def fields_at_def filters_at_def nth_append)
  from FieldType_loop_on_heap_refines [OF f2 l2 loop] obtain fm' flt' where
    frame: "unchanged_except {fa, fla} h2 h3"
    and maps: "fields_at h3 fa = Some fm'" "filters_at h3 fla = Some flt'"
    and pure: "FieldType_loop fc (StructFields (Instance e)) Map.empty Map.empty
        = (case err of Some x \<Rightarrow> Inl x | None \<Rightarrow> Inr (fm', flt'))"
    by blast
  from assms e loop have out: "h' = h3"
    "r = (case err of Some x \<Rightarrow> Returns (Inl x)
          | None \<Rightarrow> Returns (Inr (\<lparr>ref_Name = ToLower (TypeName (Instance e)),
                                    ref_Description = Description e,
                                    ref_Fields = fa\<rparr>, fla)))"
    by (auto simp: FieldType_on_heap_def make_map_def Let_def h2_def fa_def fla_def
        split: option.splits)
  have old: "take (length h) h3 = h"
    using frame unfolding h2_def by (rule frame_keeps_old_maps) (simp add: fa_def fla_def)
  have "FieldType_result h3 r = FieldType fc entity"
    using e pure maps out(2)
    by (simp add: FieldType_result_def FieldType_def split: option.splits)
  with old out(1) show ?thesis by simp
qed

lemma RelationshipType_on_heap_refines:
  fixes h :: "'r heap"
  assumes "entities_at h ema = Some em" and "objects_at h eoa = Some eo"
    and "RelationshipType_on_heap Singular ema eoa entity resolvers h = (r, h')"
  shows "take (length h) h' = h
    \<and> RelationshipType_result h' r = RelationshipType Singular em eo entity resolvers"
proof (cases "\<exists>e. entity = Some e \<and> Kind (Instance e) = reflect_Struct")
  case False
  with assms show ?thesis
    by (auto simp: RelationshipType_on_heap_def RelationshipType_def
        RelationshipType_result_def Let_def split: option.splits)
next
  case True
  then obtain e where e: "entity = Some e" "Kind (Instance e) = reflect_Struct" by blast
  define h1 :: "'r heap" where "h1 = h @ [FieldMap Map.empty]"
  define fa where "fa = length h"
  obtain res h2 where
    loop: "RelationshipType_loop_on_heap Singular ema eoa resolvers
             (StructFields (Instance e)) fa h1 = (res, h2)"
    by fastforce
  have em1: "entities_at h1 ema = Some em" and eo1: "objects_at h1 eoa = Some eo"
    and f1: "fields_at h1 fa = Some Map.empty"
    using assms(1,2)
    by (auto simp: h1_def fa_def entities_at_def objects_at_def fields_at_def nth_append
        split: if_splits)
  from RelationshipType_loop_on_heap_refines [OF em1 eo1 f1 loop] obtain fm' where
    frame: "unchanged_except {fa} h1 h2"
    and maps: "fields_at h2 fa = Some fm'"
    and pure: "RelationshipType_loop Singular em eo resolvers (StructFields (Instance e))
                 Map.empty
        = (case res of Panics \<Rightarrow> Panics | Returns err \<Rightarrow> Returns (fm', err))"
    by blast
  from assms(3) e loop have out: "h' = h2"
    "r = (case res of Panics \<Rightarrow> Panics | Returns err \<Rightarrow> Returns (fa, err))"
    by (auto simp: RelationshipType_on_heap_def make_map_def Let_def h1_def fa_def
        split: outcome.splits)
  have old: "take (length h) h2 = h"
    using frame unfolding h1_def by (rule frame_keeps_old_maps) (simp add: fa_def)
  have "RelationshipType_result h2 r = RelationshipType Singular em eo entity resolvers"
    using e pure maps out(2)
    by (simp add: RelationshipType_result_def RelationshipType_def split: outcome.splits)
  with old out(1) show ?thesis by simp
qed

lemma old_maps_kept:
  assumes "take (length h) h' = h"
  shows "entities_at h a = Some em \<Longrightarrow> entities_at h' a = Some em"
    and "objects_at h b = Some eo \<Longrightarrow> objects_at h' b = Some eo"
proof -
  from assms have "length (take (length h) h') = length h" by simp
  then have len: "length h \<le> length h'" by simp
  have nth: "h' ! i = h ! i" if "i < length h" for i
  proof -
    from that have "take (length h) h' ! i = h' ! i" by simp
    with assms show ?thesis by simp
  qed
  show "entities_at h a = Some em \<Longrightarrow> entities_at h' a = Some em"
    using len nth [of a] by (auto simp: entities_at_def split: if_splits)
  show "objects_at h b = Some eo \<Longrightarrow> objects_at h' b = Some eo"
    using len nth [of b] by (auto simp: objects_at_def split: if_splits)
qed

text \<open>The sample inputs, run.\<close>

lemmas field_eval =
  field_def scalar_definition_def codes_def tag_filterable_def output_name_def Lookup_def
  ParseBool_def ToLower_def lower_byte_def is_integer_kind_def fulltype_def

lemmas relationship_eval =
  relationship_def relationship_field_def Entity_Description_def call_resolver_def
  ToLower_def lower_byte_def fulltype_def singular_s_def sample_resolvers_def
  blog_entitiesMap_def blog_entitiesObjects_def user_object_def comment_object_def
  User_entity_def Comment_entity_def no_entities_def no_objects_def

lemma FieldType_Post_entity:
  "(FieldType codes (Some Post_entity)
      :: (error + (unit Object \<times> (string \<Rightarrow> 8 word option))) outcome)
   = Returns (Inr (NewObject ''post'' ''a blog post''
       [''title'' \<mapsto> Field graphql_String ''title'' [] None,
        ''views'' \<mapsto> Field graphql_Int ''views'' [] None,
        ''created_at'' \<mapsto> Field graphql_DateTime ''created_at'' [] None],
       [''title'' \<mapsto> 1, ''created_at'' \<mapsto> 5]))"
  by (simp add: FieldType_def Post_entity_def struct_type_def field_eval Title_field_def
      Views_field_def Created_field_def Author_field_def Comments_field_def string_type_def
      int64_type_def time_type_def)

lemma FieldType_Item_entity:
  "FieldType codes (Some Item_entity)
   = Returns (Inr (NewObject ''item'' ''an item''
       (no_fields(''id'' := Some (Field graphql_Int ''id'' [] None))),
       no_filters(''id'' := Some 3)))"
  by (simp add: FieldType_def field_eval Code_field_def ID_field_def Item_entity_def
      struct_type_def string_type_def int64_type_def no_fields_def no_filters_def)

lemma relationship_Author_field:
  "relationship singular_s blog_entitiesMap blog_entitiesObjects Author_field sample_resolvers
   = Returns (Inr (Field (ObjectPtr (Some user_object)) ''author''
       ''Get a single user (a user) by id or slug''
       (Some (resolve_single (Some User_entity)))))"
  by (simp add: relationship_eval Author_field_def)

lemma relationship_Comments_field:
  "relationship singular_s blog_entitiesMap blog_entitiesObjects Comments_field sample_resolvers
   = Returns (Inr (Field (NewList (Some comment_object)) ''comment''
       ''Get a list of comment (a comment) according to filters''
       (Some (resolve_listing (Some Comment_entity)))))"
  by (simp add: relationship_eval Comments_field_def)

lemma RelationshipType_on_heap_Post_entity:
  "RelationshipType_on_heap singular_s 0 1 (Some Post_entity) sample_resolvers blog_heap
   = (Returns (2, None), blog_heap @ [FieldMap blog_relationships])"
  by (simp add: RelationshipType_on_heap_def relationship_on_heap_def make_map_def
      entities_at_def objects_at_def store_field_def blog_heap_def blog_relationships_def
      Post_entity_def struct_type_def relationship_eval fulltype_def
      Title_field_def Views_field_def Created_field_def Author_field_def Comments_field_def
      string_type_def int64_type_def time_type_def)

subsection \<open>The claims\<close>

text \<open>
  C1. On a field whose kind is a Go scalar kind, \<open>field\<close> succeeds and the GraphQL field
  it builds has the matching scalar type: \<open>String\<close> gives \<open>graphql.String\<close>, \<open>Bool\<close> gives
  \<open>graphql.Boolean\<close>, each of the ten integer kinds gives \<open>graphql.Int\<close>, and \<open>Float32\<close>
  and \<open>Float64\<close> give \<open>graphql.Float\<close>.
\<close>

theorem field_scalar_kinds:
  fixes f :: StructField and fc :: FilterCodes
  defines "k \<equiv> Kind (Type f)"
  defines "typed t \<equiv>
    (\<exists>d fld. (field fc f :: error + 'r fieldDefinition) = Inr d \<and> field' d = Some fld
       \<and> Field_Type fld = t)"
  shows "(k = reflect_String \<longrightarrow> typed graphql_String)
    \<and> (k = reflect_Bool \<longrightarrow> typed graphql_Boolean)
    \<and> (k \<in> {reflect_Int, reflect_Int8, reflect_Int16, reflect_Int32, reflect_Int64,
            reflect_Uint, reflect_Uint8, reflect_Uint16, reflect_Uint32, reflect_Uint64}
         \<longrightarrow> typed graphql_Int)
    \<and> (k \<in> {reflect_Float32, reflect_Float64} \<longrightarrow> typed graphql_Float)"
  unfolding k_def typed_def
  by (auto simp: field_def scalar_definition_def is_integer_kind_def Let_def)

text \<open>The first sample field is a string, and \<open>field\<close> gives it \<open>graphql.String\<close>.\<close>

theorem field_scalar_kinds_witness:
  "Kind (Type Title_field) = reflect_String
   \<and> (\<exists>d fld. (field codes Title_field :: error + unit fieldDefinition) = Inr d
         \<and> field' d = Some fld \<and> Field_Type fld = graphql_String)"
  using field_scalar_kinds [of Title_field codes, where ?'r = unit]
  by (simp add: Title_field_def string_type_def)

text \<open>
  C6. The name of the GraphQL field that \<open>field\<close> builds for a scalar field is the
  lowercased value of the field's \<^verbatim>\<open>json\<close> tag when the tag is present, and the
  lowercased Go name of the field otherwise. Lowercased means: the name has the length
  of its source, each byte of the source from A to Z has become the small letter that
  stands at its place in the alphabet, and every other byte is as it was. This is
  \<^verbatim>\<open>strings.ToLower\<close> for a source of ASCII bytes.
\<close>

theorem field_name_from_json_tag:
  fixes f :: StructField
  defines "source \<equiv> (case Lookup (Tag f) ''json'' of Some v \<Rightarrow> v | None \<Rightarrow> Name f)"
  assumes "field fc f = Inr d" and "ascii source"
  shows "\<exists>fld. field' d = Some fld
           \<and> Field_Name fld = ToLower source
           \<and> length (Field_Name fld) = length source
           \<and> (\<forall>i<length source.
                 (source ! i, Field_Name fld ! i)
                   \<in> set (zip ''ABCDEFGHIJKLMNOPQRSTUVWXYZ'' ''abcdefghijklmnopqrstuvwxyz'')
                 \<or> source ! i \<notin> set ''ABCDEFGHIJKLMNOPQRSTUVWXYZ''
                    \<and> Field_Name fld ! i = source ! i)"
proof -
  from assms(2) obtain fld where fld: "field' d = Some fld"
    and name: "Field_Name fld = ToLower source"
    unfolding source_def
    by (auto simp: field_def scalar_definition_def output_name_def Let_def split: if_splits)
  have len: "length (Field_Name fld) = length source"
    unfolding name by (simp add: ToLower_def)
  have bytes: "\<forall>i<length source.
                 (source ! i, Field_Name fld ! i)
                   \<in> set (zip ''ABCDEFGHIJKLMNOPQRSTUVWXYZ'' ''abcdefghijklmnopqrstuvwxyz'')
                 \<or> source ! i \<notin> set ''ABCDEFGHIJKLMNOPQRSTUVWXYZ''
                    \<and> Field_Name fld ! i = source ! i"
  proof (intro allI impI)
    fix i assume "i < length source"
    then have "ToLower source ! i = lower_byte (source ! i)"
      by (simp only: ToLower_def nth_map)
    with lower_byte_cases [of "source ! i"]
    show "(source ! i, Field_Name fld ! i)
                   \<in> set (zip ''ABCDEFGHIJKLMNOPQRSTUVWXYZ'' ''abcdefghijklmnopqrstuvwxyz'')
                 \<or> source ! i \<notin> set ''ABCDEFGHIJKLMNOPQRSTUVWXYZ''
                    \<and> Field_Name fld ! i = source ! i"
      unfolding name by (simp only:)
  qed
  from fld name len bytes show ?thesis by (intro exI conjI)
qed



text \<open>
  \<^verbatim>\<open>Views\<close> has no \<^verbatim>\<open>json\<close> tag and is named \<^verbatim>\<open>views\<close> after its Go name; \<^verbatim>\<open>Updated\<close> is
  named \<^verbatim>\<open>updatedat\<close> after its tag \<^verbatim>\<open>UpdatedAt\<close>.
\<close>

theorem field_name_from_json_tag_witness:
  "(field codes Views_field :: error + unit fieldDefinition)
       = Inr \<lparr>filter' = 0, field' = Some (Field graphql_Int ''views'' [] None)\<rparr>
   \<and> Lookup (Tag Views_field) ''json'' = None
   \<and> Name Views_field = ''Views''
   \<and> ToLower ''Views'' = ''views''
   \<and> (field codes Updated_field :: error + unit fieldDefinition)
       = Inr \<lparr>filter' = 0, field' = Some (Field graphql_DateTime ''updatedat'' [] None)\<rparr>
   \<and> Lookup (Tag Updated_field) ''json'' = Some ''UpdatedAt''
   \<and> ToLower ''UpdatedAt'' = ''updatedat''"
proof -
  have views: "(field codes Views_field :: error + unit fieldDefinition)
       = Inr \<lparr>filter' = 0, field' = Some (Field graphql_Int ''views'' [] None)\<rparr>"
    by (simp add: field_eval Views_field_def int64_type_def)
  have updated: "(field codes Updated_field :: error + unit fieldDefinition)
       = Inr \<lparr>filter' = 0, field' = Some (Field graphql_DateTime ''updatedat'' [] None)\<rparr>"
    by (simp add: field_eval Updated_field_def time_type_def)
  have tags: "Lookup (Tag Views_field) ''json'' = None" "Name Views_field = ''Views''"
    "Lookup (Tag Updated_field) ''json'' = Some ''UpdatedAt''"
    by (simp_all add: Views_field_def Updated_field_def Lookup_def)
  have plain: "ascii ''Views''" "ascii ''UpdatedAt''"
    by (simp_all add: ascii_def)
  from field_name_from_json_tag [OF views] tags plain
  have "\<exists>fld. Some (Field graphql_Int ''views'' [] None) = Some fld
      \<and> Field_Name fld = ToLower ''Views''"
    by auto
  then have lower1: "ToLower ''Views'' = ''views''" by auto
  from field_name_from_json_tag [OF updated] tags plain
  have "\<exists>fld. Some (Field graphql_DateTime ''updatedat'' [] None) = Some fld
      \<and> Field_Name fld = ToLower ''UpdatedAt''"
    by auto
  then have lower2: "ToLower ''UpdatedAt'' = ''updatedat''" by auto
  from views tags(1,2) lower1 updated tags(3) lower2 show ?thesis by (intro conjI)
qed

text \<open>
  C8. A field of type \<^verbatim>\<open>time.Time\<close>, whose kind is \<^verbatim>\<open>Struct\<close>, is a scalar and not a
  relationship: \<open>field\<close> gives it \<open>graphql.DateTime\<close>, with the code \<^verbatim>\<open>filterDate\<close> when it
  is filterable; \<open>relationship\<close> rejects it as not a relationship, and the loop of
  \<^verbatim>\<open>RelationshipType\<close> passes over it.
\<close>

theorem time_Time_is_scalar:
  assumes "fulltype (Type f) = ''time.Time''" and "Kind (Type f) = reflect_Struct"
  shows "field fc f =
           Inr \<lparr>filter' = (if tag_filterable f then filterDate fc else 0),
                field' = Some (Field graphql_DateTime (output_name f) [] None)\<rparr>
    \<and> relationship Singular entitiesMap entitiesObjects f resolvers =
           Returns (Inl errorNotRelationshipType)
    \<and> RelationshipType_loop Singular entitiesMap entitiesObjects resolvers (f # fs) fieldmap =
           RelationshipType_loop Singular entitiesMap entitiesObjects resolvers fs fieldmap"
  using assms
  by (simp add: field_def scalar_definition_def is_integer_kind_def relationship_def)

theorem time_Time_is_scalar_witness:
  "fulltype (Type Created_field) = ''time.Time''
   \<and> Kind (Type Created_field) = reflect_Struct
   \<and> tag_filterable Created_field
   \<and> (field codes Created_field :: error + unit fieldDefinition) =
         Inr \<lparr>filter' = filterDate codes,
              field' = Some (Field graphql_DateTime ''created_at'' [] None)\<rparr>
   \<and> relationship singular_s blog_entitiesMap blog_entitiesObjects Created_field
         sample_resolvers = Returns (Inl errorNotRelationshipType)"
proof -
  have t: "fulltype (Type Created_field) = ''time.Time''"
    and k: "Kind (Type Created_field) = reflect_Struct"
    by (simp_all add: Created_field_def time_type_def fulltype_def)
  have flt: "tag_filterable Created_field"
    by (simp add: tag_filterable_def Created_field_def Lookup_def ParseBool_def)
  have name: "output_name Created_field = ''created_at''"
    by (simp add: output_name_def Created_field_def Lookup_def ToLower_def lower_byte_def)
  from time_Time_is_scalar [OF t k, of codes singular_s blog_entitiesMap blog_entitiesObjects
      sample_resolvers "[]" Map.empty, where ?'a = unit] t k flt name
  show ?thesis by simp
qed

text \<open>
  C10. A field that is neither of a scalar kind, nor \<^verbatim>\<open>time.Time\<close>, nor of kind \<^verbatim>\<open>Struct\<close>
  or \<^verbatim>\<open>Slice\<close> makes \<open>field\<close> return the error whose text is "not a relationship field
  type", and \<^verbatim>\<open>FieldType\<close> on an entity that has such a field returns that error, with
  no object and no filters, instead of skipping the field.
\<close>

theorem unsupported_kind_aborts_FieldType:
  assumes "Kind (Type f) \<noteq> reflect_String" and "Kind (Type f) \<noteq> reflect_Bool"
    and "\<not> is_integer_kind (Kind (Type f))"
    and "Kind (Type f) \<noteq> reflect_Float32" and "Kind (Type f) \<noteq> reflect_Float64"
    and "fulltype (Type f) \<noteq> ''time.Time''"
    and "Kind (Type f) \<noteq> reflect_Struct" and "Kind (Type f) \<noteq> reflect_Slice"
  shows "(field fc f :: error + 'r fieldDefinition) = Inl errorNotRelationshipType
    \<and> (\<forall>e. Kind (Instance e) = reflect_Struct \<and> f \<in> set (StructFields (Instance e))
          \<longrightarrow> (FieldType fc (Some e)
                 :: (error + ('r Object \<times> (string \<Rightarrow> 8 word option))) outcome)
                = Returns (Inl errorNotRelationshipType))"
proof -
  have rejected: "(field fc f :: error + 'r fieldDefinition) = Inl errorNotRelationshipType"
    using assms by (simp add: field_def)
  show ?thesis
    using rejected FieldType_loop_aborts [OF _ rejected]
    by (simp add: FieldType_def Let_def)
qed

text \<open>The draft's \<^verbatim>\<open>Parent *Post\<close> field stops \<^verbatim>\<open>FieldType\<close>.\<close>

theorem unsupported_kind_aborts_FieldType_witness:
  "(field codes Parent_field :: error + unit fieldDefinition) = Inl errorNotRelationshipType
   \<and> (FieldType codes (Some Draft_entity)
        :: (error + (unit Object \<times> (string \<Rightarrow> 8 word option))) outcome)
        = Returns (Inl errorNotRelationshipType)"
  using unsupported_kind_aborts_FieldType [of Parent_field codes, where ?'r = unit]
  by (simp add: Parent_field_def Draft_entity_def struct_type_def is_integer_kind_def
      fulltype_def)

text \<open>
  C2. A field that \<open>relationship\<close> accepts is of kind \<^verbatim>\<open>Struct\<close> or \<^verbatim>\<open>Slice\<close> and is wired
  with a resolver. For kind \<^verbatim>\<open>Struct\<close> the lowercased name is registered in both maps,
  the type of the GraphQL field is the object registered for it and the resolver is
  \<^verbatim>\<open>resolvers.Single(entity)\<close>. For kind \<^verbatim>\<open>Slice\<close> the type is the list of what
  \<^verbatim>\<open>entitiesObjects\<close> holds for the singularized lowercased name and the resolver is
  \<^verbatim>\<open>resolvers.Listing(entity)\<close>, the entity being the one registered for that name.
\<close>

theorem relationship_wiring:
  assumes "relationship Singular entitiesMap entitiesObjects f resolvers = Returns (Inr fld)"
  shows "(Kind (Type f) = reflect_Struct \<or> Kind (Type f) = reflect_Slice)
    \<and> (Kind (Type f) = reflect_Struct \<longrightarrow>
          (\<exists>e obj r. entitiesMap (ToLower (Name f)) = Some e
             \<and> entitiesObjects (ToLower (Name f)) = Some obj
             \<and> resolvers = Some r
             \<and> Field_Type fld = ObjectPtr (Some obj)
             \<and> Field_Resolve fld = Single r (Some e)))
    \<and> (Kind (Type f) = reflect_Slice \<longrightarrow>
          (\<exists>e r. entitiesMap (ToLower (Singular (ToLower (Name f)))) = Some e
             \<and> resolvers = Some r
             \<and> Field_Type fld = NewList (entitiesObjects (ToLower (Singular (ToLower (Name f)))))
             \<and> Field_Resolve fld = Listing r (Some e)))"
proof (cases "Kind (Type f) = reflect_Slice")
  case True
  with assms have "relationship_field entitiesMap entitiesObjects resolvers reflect_Slice
      (ToLower (Singular (ToLower (Name f)))) = Returns (Inr fld)"
    by (simp add: relationship_def)
  from relationship_field_Inr [OF this] True show ?thesis by auto
next
  case False
  with assms have reg: "entitiesMap (ToLower (Name f)) \<noteq> None"
      "entitiesObjects (ToLower (Name f)) \<noteq> None"
    and "relationship_field entitiesMap entitiesObjects resolvers (Kind (Type f))
      (ToLower (Name f)) = Returns (Inr fld)"
    by (auto simp: relationship_def Let_def split: if_splits)
  from relationship_field_Inr [OF this(3)] False reg show ?thesis by auto
qed

text \<open>
  The post's \<^verbatim>\<open>Author User\<close> is wired to the user object and \<^verbatim>\<open>Single\<close>, its
  \<^verbatim>\<open>Comments []Comment\<close> to the list of the comment object and \<^verbatim>\<open>Listing\<close>.
\<close>

theorem relationship_wiring_witness:
  "relationship singular_s blog_entitiesMap blog_entitiesObjects Author_field sample_resolvers
     = Returns (Inr (Field (ObjectPtr (Some user_object)) ''author''
         ''Get a single user (a user) by id or slug''
         (Some (resolve_single (Some User_entity)))))
   \<and> Kind (Type Author_field) = reflect_Struct
   \<and> blog_entitiesObjects (ToLower (Name Author_field)) = Some user_object
   \<and> blog_entitiesMap (ToLower (Name Author_field)) = Some User_entity
   \<and> relationship singular_s blog_entitiesMap blog_entitiesObjects Comments_field
       sample_resolvers
     = Returns (Inr (Field (NewList (Some comment_object)) ''comment''
         ''Get a list of comment (a comment) according to filters''
         (Some (resolve_listing (Some Comment_entity)))))
   \<and> Kind (Type Comments_field) = reflect_Slice
   \<and> blog_entitiesObjects (ToLower (singular_s (ToLower (Name Comments_field))))
       = Some comment_object
   \<and> blog_entitiesMap (ToLower (singular_s (ToLower (Name Comments_field))))
       = Some Comment_entity"
  using relationship_wiring [OF relationship_Author_field]
    relationship_wiring [OF relationship_Comments_field]
    relationship_Author_field relationship_Comments_field
  by (simp add: Author_field_def Comments_field_def blog_entitiesMap_def
      blog_entitiesObjects_def ToLower_def lower_byte_def singular_s_def)

text \<open>
  C4, amended. A field of kind \<^verbatim>\<open>Struct\<close> or \<^verbatim>\<open>Slice\<close> whose full type is not
  \<^verbatim>\<open>time.Time\<close> is no scalar field: \<open>field\<close> returns the not-a-simple-field-type error,
  the loop of \<^verbatim>\<open>FieldType\<close> skips it, and every entry of the object that \<^verbatim>\<open>FieldType\<close>
  returns was built by \<open>field\<close> from a field that is not of kind \<^verbatim>\<open>Struct\<close> or \<^verbatim>\<open>Slice\<close>
  or is a \<^verbatim>\<open>time.Time\<close>.
\<close>

theorem struct_and_slice_fields_are_skipped:
  assumes "Kind (Type f) = reflect_Struct \<or> Kind (Type f) = reflect_Slice"
    and "fulltype (Type f) \<noteq> ''time.Time''"
  shows "(field fc f :: error + 'r fieldDefinition) = Inl errorNotSimpleFieldType
    \<and> FieldType_loop fc (f # fs) (fieldmap :: 'r Fields) filters
        = FieldType_loop fc fs fieldmap filters
    \<and> (\<forall>e obj flt k fld.
          FieldType fc (Some e) = Returns (Inr (obj :: 'r Object, flt))
          \<and> ObjectFields obj k = Some fld
          \<longrightarrow> (\<exists>g\<in>set (StructFields (Instance e)). \<exists>d.
                 field fc g = Inr d \<and> field' d = Some fld \<and> Field_Name fld = k
                 \<and> (Kind (Type g) \<noteq> reflect_Struct \<and> Kind (Type g) \<noteq> reflect_Slice
                    \<or> fulltype (Type g) = ''time.Time'')))"
proof -
  have skipped: "(field fc f :: error + 'r fieldDefinition) = Inl errorNotSimpleFieldType"
    using assms by (auto simp: field_def is_integer_kind_def)
  have origin: "\<exists>g\<in>set (StructFields (Instance e)). \<exists>d.
                 field fc g = Inr d \<and> field' d = Some fld \<and> Field_Name fld = k
                 \<and> (Kind (Type g) \<noteq> reflect_Struct \<and> Kind (Type g) \<noteq> reflect_Slice
                    \<or> fulltype (Type g) = ''time.Time'')"
    if run: "FieldType fc (Some e) = Returns (Inr (obj :: 'r Object, flt))"
      and entry: "ObjectFields obj k = Some fld"
    for e obj flt k fld
  proof -
    from run obtain fieldmap' where
      loop: "FieldType_loop fc (StructFields (Instance e)) Map.empty Map.empty
               = Inr (fieldmap', flt)"
      and obj: "obj = NewObject (ToLower (TypeName (Instance e))) (Description e) fieldmap'"
      by (auto simp: FieldType_def Let_def split: if_splits sum.splits)
    from entry obj have "fieldmap' k = Some fld" by simp
    from FieldType_loop_fields_origin [OF loop this]
    obtain g d where g: "g \<in> set (StructFields (Instance e))"
      and d: "(field fc g :: error + 'r fieldDefinition) = Inr d" "field' d = Some fld"
        "Field_Name fld = k"
      by auto
    from d(1) have "Kind (Type g) \<noteq> reflect_Struct \<and> Kind (Type g) \<noteq> reflect_Slice
                    \<or> fulltype (Type g) = ''time.Time''"
      by (auto simp: field_def Let_def is_integer_kind_def split: if_splits)
    with g d show ?thesis by blast
  qed
  from skipped origin show ?thesis by simp
qed

text \<open>The post's \<^verbatim>\<open>Author User\<close> is such a field.\<close>

theorem struct_and_slice_fields_are_skipped_witness:
  "Kind (Type Author_field) = reflect_Struct
   \<and> fulltype (Type Author_field) \<noteq> ''time.Time''
   \<and> (field codes Author_field :: error + unit fieldDefinition) = Inl errorNotSimpleFieldType
   \<and> FieldType_loop codes [Author_field, Title_field] (Map.empty :: unit Fields) Map.empty
       = FieldType_loop codes [Title_field] Map.empty Map.empty"
proof -
  have k: "Kind (Type Author_field) = reflect_Struct \<or> Kind (Type Author_field) = reflect_Slice"
    and t: "fulltype (Type Author_field) \<noteq> ''time.Time''"
    by (simp_all add: Author_field_def fulltype_def)
  from struct_and_slice_fields_are_skipped [OF k t, of codes "[Title_field]"
      "Map.empty :: unit Fields" Map.empty] t
  show ?thesis by (simp add: Author_field_def)
qed

text \<open>
  C4 as it is written fails on \<^verbatim>\<open>time.Time\<close>: the field \<^verbatim>\<open>Created\<close> is of kind \<^verbatim>\<open>Struct\<close>,
  \<open>field\<close> accepts it, and it is in the object of the post.
\<close>

theorem struct_kind_time_field_is_kept:
  "Kind (Type Created_field) = reflect_Struct
   \<and> (field codes Created_field :: error + unit fieldDefinition)
       = Inr \<lparr>filter' = 5, field' = Some (Field graphql_DateTime ''created_at'' [] None)\<rparr>
   \<and> Created_field \<in> set (StructFields (Instance Post_entity))
   \<and> (FieldType codes (Some Post_entity)
        :: (error + (unit Object \<times> (string \<Rightarrow> 8 word option))) outcome)
       = Returns (Inr (NewObject ''post'' ''a blog post''
           [''title'' \<mapsto> Field graphql_String ''title'' [] None,
            ''views'' \<mapsto> Field graphql_Int ''views'' [] None,
            ''created_at'' \<mapsto> Field graphql_DateTime ''created_at'' [] None],
           [''title'' \<mapsto> 1, ''created_at'' \<mapsto> 5]))"
proof -
  have "(field codes Created_field :: error + unit fieldDefinition)
       = Inr \<lparr>filter' = 5, field' = Some (Field graphql_DateTime ''created_at'' [] None)\<rparr>"
    by (simp add: field_eval Created_field_def time_type_def)
  with FieldType_Post_entity show ?thesis
    by (simp add: Created_field_def time_type_def Post_entity_def struct_type_def)
qed

text \<open>
  C5. The two classifiers exclude each other: on no field do both \<open>field\<close> and
  \<open>relationship\<close> succeed. The fields meant are those of Go structs, where the one
  type with package path \<^verbatim>\<open>time\<close> and name \<^verbatim>\<open>Time\<close> is the struct of the standard
  library.
\<close>

theorem classifiers_exclusive:
  assumes "fulltype (Type f) = ''time.Time'' \<longrightarrow> Kind (Type f) = reflect_Struct"
  shows "\<not> ((\<exists>d. (field fc f :: error + 'r fieldDefinition) = Inr d)
          \<and> (\<exists>fld. relationship Singular entitiesMap entitiesObjects f
                     (resolvers :: 'r Resolvers) = Returns (Inr fld)))"
proof
  assume both: "(\<exists>d. (field fc f :: error + 'r fieldDefinition) = Inr d)
          \<and> (\<exists>fld. relationship Singular entitiesMap entitiesObjects f resolvers
                 = Returns (Inr fld))"
  then obtain fld where
    rel: "relationship Singular entitiesMap entitiesObjects f resolvers = Returns (Inr fld)"
    by blast
  have related: "Kind (Type f) = reflect_Slice
      \<or> Kind (Type f) = reflect_Struct \<and> fulltype (Type f) \<noteq> ''time.Time''"
    using rel by (auto simp: relationship_def Let_def split: if_splits)
  from both have scalar: "Kind (Type f) = reflect_String \<or> Kind (Type f) = reflect_Bool
      \<or> is_integer_kind (Kind (Type f))
      \<or> Kind (Type f) = reflect_Float32 \<or> Kind (Type f) = reflect_Float64
      \<or> fulltype (Type f) = ''time.Time''"
    by (auto simp: field_def Let_def split: if_splits)
  from related scalar assms show False
    by (auto simp: is_integer_kind_def)
qed

text \<open>
  On the post's fields: \<^verbatim>\<open>Created\<close> is taken by \<open>field\<close> only, \<^verbatim>\<open>Author\<close> by
  \<open>relationship\<close> only.
\<close>

theorem classifiers_exclusive_witness:
  "fulltype (Type Created_field) = ''time.Time''
   \<and> Kind (Type Created_field) = reflect_Struct
   \<and> (field codes Created_field :: error + sample_resolver fieldDefinition)
       = Inr \<lparr>filter' = 5, field' = Some (Field graphql_DateTime ''created_at'' [] None)\<rparr>
   \<and> \<not> (\<exists>fld. relationship singular_s blog_entitiesMap blog_entitiesObjects Created_field
                 sample_resolvers = Returns (Inr fld))
   \<and> fulltype (Type Author_field) \<noteq> ''time.Time''
   \<and> relationship singular_s blog_entitiesMap blog_entitiesObjects Author_field
       sample_resolvers
       = Returns (Inr (Field (ObjectPtr (Some user_object)) ''author''
           ''Get a single user (a user) by id or slug''
           (Some (resolve_single (Some User_entity)))))
   \<and> \<not> (\<exists>d. (field codes Author_field :: error + sample_resolver fieldDefinition) = Inr d)"
proof -
  have created: "(field codes Created_field :: error + sample_resolver fieldDefinition)
       = Inr \<lparr>filter' = 5, field' = Some (Field graphql_DateTime ''created_at'' [] None)\<rparr>"
    by (simp add: field_eval Created_field_def time_type_def)
  have types: "fulltype (Type Created_field) = ''time.Time''"
    "Kind (Type Created_field) = reflect_Struct"
    "fulltype (Type Author_field) \<noteq> ''time.Time''"
    by (simp_all add: Created_field_def time_type_def Author_field_def fulltype_def)
  from classifiers_exclusive [of Created_field codes singular_s blog_entitiesMap
      blog_entitiesObjects sample_resolvers]
    classifiers_exclusive [of Author_field codes singular_s blog_entitiesMap
      blog_entitiesObjects sample_resolvers]
    created relationship_Author_field types
  show ?thesis by simp
qed

text \<open>
  C9. The unknown-type error is for fields of kind \<^verbatim>\<open>Struct\<close>; for a field of kind
  \<^verbatim>\<open>Slice\<close> the claim has \<open>relationship\<close> succeed with a list field even when the
  singularized lowercased name is not registered. The code does not get that far. An
  article's \<^verbatim>\<open>Tags []string\<close> is of kind \<^verbatim>\<open>Slice\<close> and the blog registers no \<^verbatim>\<open>tag\<close>: the
  chain of tests at lines 148 to 156 passes over both registration tests, the entity
  read at line 158 is the nil interface, and line 166 calls \<^verbatim>\<open>Description()\<close> on it. The
  call panics, and \<^verbatim>\<open>RelationshipType\<close> on the article with it; so it is for
  \<^verbatim>\<open>Comments []Comment\<close> when nothing is registered. On the sibling path, for the struct
  field \<^verbatim>\<open>Author User\<close> with nothing registered, the tests are made and the unknown-type
  error is returned.
\<close>

theorem slice_of_unregistered_entity_panics:
  "Kind (Type Tags_field) = reflect_Slice
   \<and> ToLower (singular_s (ToLower (Name Tags_field))) = ''tag''
   \<and> blog_entitiesMap ''tag'' = None
   \<and> relationship singular_s blog_entitiesMap blog_entitiesObjects Tags_field
         sample_resolvers = Panics
   \<and> RelationshipType singular_s blog_entitiesMap blog_entitiesObjects (Some Article_entity)
         sample_resolvers = Panics
   \<and> Kind (Type Comments_field) = reflect_Slice
   \<and> no_entities (ToLower (singular_s (ToLower (Name Comments_field)))) = None
   \<and> relationship singular_s no_entities no_objects Comments_field sample_resolvers = Panics
   \<and> Kind (Type Author_field) = reflect_Struct
   \<and> no_entities (ToLower (Name Author_field)) = None
   \<and> relationship singular_s no_entities no_objects Author_field sample_resolvers
       = Returns (Inl errorUnknownFieldType)"
proof -
  have tags: "Kind (Type Tags_field) = reflect_Slice"
    "ToLower (singular_s (ToLower (Name Tags_field))) = ''tag''"
    "blog_entitiesMap ''tag'' = None"
    by (simp_all add: Tags_field_def ToLower_def lower_byte_def singular_s_def
        blog_entitiesMap_def)
  have panic: "relationship singular_s blog_entitiesMap blog_entitiesObjects Tags_field
         sample_resolvers = Panics"
    by (simp add: relationship_eval Tags_field_def)
  have title: "relationship singular_s blog_entitiesMap blog_entitiesObjects Title_field
         sample_resolvers = Returns (Inl errorNotRelationshipType)"
    by (simp add: relationship_def Title_field_def string_type_def fulltype_def)
  from panic title
  have article: "RelationshipType singular_s blog_entitiesMap blog_entitiesObjects
         (Some Article_entity) sample_resolvers = Panics"
    by (simp add: RelationshipType_def Article_entity_def struct_type_def)
  have comments: "Kind (Type Comments_field) = reflect_Slice"
    "no_entities (ToLower (singular_s (ToLower (Name Comments_field)))) = None"
    "relationship singular_s no_entities no_objects Comments_field sample_resolvers = Panics"
    by (simp_all add: relationship_eval Comments_field_def)
  have author: "Kind (Type Author_field) = reflect_Struct"
    "no_entities (ToLower (Name Author_field)) = None"
    "relationship singular_s no_entities no_objects Author_field sample_resolvers
       = Returns (Inl errorUnknownFieldType)"
    by (simp_all add: relationship_eval Author_field_def)
  from tags panic article comments author show ?thesis by (intro conjI)
qed

text \<open>
  C3, amended. When \<^verbatim>\<open>FieldType\<close> succeeds, the keys of the filters map are exactly the
  output names, other than the empty name, of the scalar fields whose \<^verbatim>\<open>filterable\<close>
  tag parses as true. Every entry comes from such a field and holds the filter code
  that matches that field's classification. Under a name that several filterable
  scalar fields share, the code is that of the last of them in the order of the
  struct: a filterable scalar field with a name finds its own code under its name when
  no filterable scalar field after it has the same name, and also whenever the fields
  that share the name agree on the code. Here \<^verbatim>\<open>filterNone\<close> is 0 and the five other
  codes are not.
\<close>

theorem filters_of_FieldType:
  fixes obj :: "'r Object"
  assumes "zero_is_filterNone fc"
    and "FieldType fc (Some e) = Returns (Inr (obj, filters))"
  defines "fs \<equiv> StructFields (Instance e)"
  defines "scalar \<equiv> \<lambda>f. \<exists>d. (field fc f :: error + 'r fieldDefinition) = Inr d"
  shows "dom filters =
      {output_name f | f. f \<in> set fs \<and> scalar f \<and> tag_filterable f \<and> output_name f \<noteq> []}
    \<and> (\<forall>k c. filters k = Some c \<longrightarrow>
          (\<exists>f\<in>set fs. scalar f \<and> tag_filterable f \<and> output_name f = k
             \<and> c = spec_filter_code fc f))
    \<and> (\<forall>f\<in>set fs. scalar f \<and> tag_filterable f \<and> output_name f \<noteq> []
          \<and> (\<forall>g\<in>set fs. scalar g \<and> tag_filterable g \<and> output_name g = output_name f
                \<longrightarrow> spec_filter_code fc g = spec_filter_code fc f)
          \<longrightarrow> filters (output_name f) = Some (spec_filter_code fc f))
    \<and> (\<forall>before f after. fs = before @ f # after
          \<and> scalar f \<and> tag_filterable f \<and> output_name f \<noteq> []
          \<and> (\<forall>g\<in>set after. scalar g \<and> tag_filterable g
                \<longrightarrow> output_name g \<noteq> output_name f)
          \<longrightarrow> filters (output_name f) = Some (spec_filter_code fc f))"
proof -
  from assms(2) obtain fieldmap' where
    loop: "FieldType_loop fc fs (Map.empty :: 'r Fields) Map.empty = Inr (fieldmap', filters)"
    unfolding fs_def
    by (auto simp: FieldType_def Let_def split: if_splits sum.splits)
  have keys: "dom filters =
      {output_name f | f. f \<in> set fs \<and> scalar f \<and> tag_filterable f \<and> output_name f \<noteq> []}"
    using FieldType_loop_filters_dom [OF assms(1) loop] unfolding scalar_def by simp
  have origin: "\<exists>f\<in>set fs. scalar f \<and> tag_filterable f \<and> output_name f = k
             \<and> c = spec_filter_code fc f"
    if "filters k = Some c" for k c
    using FieldType_loop_filters_origin [OF assms(1) loop that] unfolding scalar_def by simp
  have own: "filters (output_name f) = Some (spec_filter_code fc f)"
    if f: "f \<in> set fs" "scalar f" "tag_filterable f" "output_name f \<noteq> []"
      and agree: "\<forall>g\<in>set fs. scalar g \<and> tag_filterable g \<and> output_name g = output_name f
                \<longrightarrow> spec_filter_code fc g = spec_filter_code fc f"
    for f
  proof -
    from f keys have "output_name f \<in> dom filters" by blast
    then obtain c where c: "filters (output_name f) = Some c" by blast
    from origin [OF c] agree have "c = spec_filter_code fc f" by blast
    with c show ?thesis by simp
  qed
  have last: "filters (output_name f) = Some (spec_filter_code fc f)"
    if split: "fs = before @ f # after"
      and f: "scalar f" "tag_filterable f" "output_name f \<noteq> []"
      and later: "\<forall>g\<in>set after. scalar g \<and> tag_filterable g
                \<longrightarrow> output_name g \<noteq> output_name f"
    for before f after
  proof -
    from f(1) obtain d where d: "(field fc f :: error + 'r fieldDefinition) = Inr d"
      unfolding scalar_def by blast
    from loop split
    have run: "FieldType_loop fc (before @ f # after) (Map.empty :: 'r Fields) Map.empty
        = Inr (fieldmap', filters)"
      by simp
    from later have "\<forall>g\<in>set after. (\<exists>d. (field fc g :: error + 'r fieldDefinition) = Inr d)
        \<and> tag_filterable g \<longrightarrow> output_name g \<noteq> output_name f"
      unfolding scalar_def .
    from FieldType_loop_last_wins [OF assms(1) run d f(2,3) this] show ?thesis .
  qed
  show ?thesis
    apply (intro conjI)
    subgoal by (rule keys)
    subgoal using origin by blast
    subgoal using own by blast
    subgoal using last by blast
    done
qed

text \<open>
  The post: its filters are \<^verbatim>\<open>title\<close> and \<^verbatim>\<open>created_at\<close>; \<^verbatim>\<open>views\<close>, whose tag \<^verbatim>\<open>yes\<close> is no
  boolean, is left out. The item: \<^verbatim>\<open>Code\<close> and \<^verbatim>\<open>ID\<close> are both filterable and both named
  \<^verbatim>\<open>id\<close>; \<^verbatim>\<open>ID\<close> is the last, and \<^verbatim>\<open>id\<close> holds its code, the int code.
\<close>

theorem filters_of_FieldType_witness:
  "zero_is_filterNone codes
   \<and> (FieldType codes (Some Post_entity)
        :: (error + (unit Object \<times> (string \<Rightarrow> 8 word option))) outcome)
      = Returns (Inr (NewObject ''post'' ''a blog post''
         [''title'' \<mapsto> Field graphql_String ''title'' [] None,
          ''views'' \<mapsto> Field graphql_Int ''views'' [] None,
          ''created_at'' \<mapsto> Field graphql_DateTime ''created_at'' [] None],
         [''title'' \<mapsto> 1, ''created_at'' \<mapsto> 5]))
   \<and> dom [''title'' \<mapsto> 1 :: 8 word, ''created_at'' \<mapsto> 5] =
       {output_name f | f. f \<in> set (StructFields (Instance Post_entity))
          \<and> (\<exists>d. (field codes f :: error + unit fieldDefinition) = Inr d)
          \<and> tag_filterable f \<and> output_name f \<noteq> []}
   \<and> Title_field \<in> set (StructFields (Instance Post_entity))
   \<and> spec_filter_code codes Title_field = 1
   \<and> output_name Title_field = ''title''
   \<and> FieldType codes (Some Item_entity)
      = Returns (Inr (NewObject ''item'' ''an item''
          (no_fields(''id'' := Some (Field graphql_Int ''id'' [] None))),
          no_filters(''id'' := Some 3)))
   \<and> StructFields (Instance Item_entity) = [Code_field] @ ID_field # []
   \<and> output_name Code_field = ''id''
   \<and> output_name ID_field = ''id''
   \<and> spec_filter_code codes Code_field = 1
   \<and> spec_filter_code codes ID_field = 3
   \<and> (no_filters(''id'' := Some 3)) (output_name ID_field)
       = Some (spec_filter_code codes ID_field)"
proof -
  have ok: "zero_is_filterNone codes"
    by (simp add: zero_is_filterNone_def codes_def)
  have title: "Title_field \<in> set (StructFields (Instance Post_entity))"
    "spec_filter_code codes Title_field = 1" "output_name Title_field = ''title''"
    by (simp_all add: Post_entity_def struct_type_def spec_filter_code_def Title_field_def
        string_type_def codes_def output_name_def Lookup_def ToLower_def lower_byte_def)
  from filters_of_FieldType [OF ok FieldType_Post_entity]
  have keys: "dom [''title'' \<mapsto> 1 :: 8 word, ''created_at'' \<mapsto> 5] =
       {output_name f | f. f \<in> set (StructFields (Instance Post_entity))
          \<and> (\<exists>d. (field codes f :: error + unit fieldDefinition) = Inr d)
          \<and> tag_filterable f \<and> output_name f \<noteq> []}"
    by (rule conjunct1)
  have item: "StructFields (Instance Item_entity) = [Code_field] @ ID_field # []"
    "output_name Code_field = ''id''" "output_name ID_field = ''id''"
    "spec_filter_code codes Code_field = 1" "spec_filter_code codes ID_field = 3"
    by (simp_all add: Item_entity_def struct_type_def spec_filter_code_def Code_field_def
        ID_field_def string_type_def int64_type_def codes_def output_name_def Lookup_def
        ToLower_def lower_byte_def is_integer_kind_def)
  have id: "(field codes ID_field :: error + unit fieldDefinition)
      = Inr \<lparr>filter' = 3, field' = Some (Field graphql_Int ''id'' [] None)\<rparr>"
    "tag_filterable ID_field"
    by (simp_all add: field_eval ID_field_def int64_type_def)
  have shape: "StructFields (Instance Item_entity) = [Code_field] @ ID_field # []
          \<and> (\<exists>d. (field codes ID_field :: error + unit fieldDefinition) = Inr d)
          \<and> tag_filterable ID_field \<and> output_name ID_field \<noteq> []
          \<and> (\<forall>g\<in>set []. (\<exists>d. (field codes g :: error + unit fieldDefinition) = Inr d)
                \<and> tag_filterable g \<longrightarrow> output_name g \<noteq> output_name ID_field)"
    using item(1,3) id by auto
  note filters_of_FieldType [OF ok FieldType_Item_entity, THEN conjunct2, THEN conjunct2,
      THEN conjunct2, THEN spec, THEN spec, THEN spec, THEN mp, OF shape]
  then have last: "(no_filters(''id'' := Some 3)) (output_name ID_field)
       = Some (spec_filter_code codes ID_field)" .
  from ok FieldType_Post_entity keys title FieldType_Item_entity item last show ?thesis
    by (intro conjI)
qed

text \<open>
  C3 as it is written fails in two ways. The page's \<^verbatim>\<open>Slug\<close> is a filterable string
  whose output name is empty: \<^verbatim>\<open>FieldType\<close> stores neither the field nor a filter for
  it. The item's \<^verbatim>\<open>Code\<close> is a filterable string named \<^verbatim>\<open>id\<close>, but \<^verbatim>\<open>ID\<close> comes later under
  the same name, and \<^verbatim>\<open>id\<close> is mapped to the int code 3, not to the string code 1.
\<close>

theorem filters_miss_empty_and_shared_names:
  "tag_filterable Slug_field
   \<and> (field codes Slug_field :: error + unit fieldDefinition)
        = Inr \<lparr>filter' = filterString codes, field' = Some (Field graphql_String [] [] None)\<rparr>
   \<and> FieldType codes (Some Page_entity)
        = Returns (Inr (NewObject ''page'' ''a page'' no_fields, no_filters))
   \<and> tag_filterable Code_field
   \<and> (field codes Code_field :: error + unit fieldDefinition)
        = Inr \<lparr>filter' = filterString codes, field' = Some (Field graphql_String ''id'' [] None)\<rparr>
   \<and> filterString codes = 1
   \<and> FieldType codes (Some Item_entity)
        = Returns (Inr (NewObject ''item'' ''an item''
            (no_fields(''id'' := Some (Field graphql_Int ''id'' [] None))),
            no_filters(''id'' := Some 3)))"
  by (simp add: FieldType_def field_eval Slug_field_def Page_entity_def Code_field_def
      ID_field_def Item_entity_def struct_type_def string_type_def int64_type_def
      no_fields_def no_filters_def)

text \<open>
  C7. A call keeps no state and writes to none of its inputs. Whatever the heap held
  before a call of \<^verbatim>\<open>FieldType\<close> or \<^verbatim>\<open>RelationshipType\<close> it holds afterwards, so every map
  that existed, \<^verbatim>\<open>entitiesMap\<close> and \<^verbatim>\<open>entitiesObjects\<close> among them, is unchanged: the
  call stores only into the maps it made itself. What the caller reads through the
  returned references is the result of the function on values, which depends on the
  arguments alone; so a second call with the same arguments yields an equal result.
  The entity and the resolvers are passed as values, and their methods are taken to
  have no side effect.
\<close>

theorem calls_leave_inputs_unchanged:
  fixes h :: "'r heap"
  shows
    "(\<forall>r h'. FieldType_on_heap fc entity h = (r, h') \<longrightarrow>
        take (length h) h' = h
        \<and> FieldType_result h' r = FieldType fc entity
        \<and> (\<forall>r2 h2. FieldType_on_heap fc entity h' = (r2, h2) \<longrightarrow>
              FieldType_result h2 r2 = FieldType_result h' r))
   \<and> (\<forall>em eo r h'.
        entities_at h entitiesMap = Some em \<and> objects_at h entitiesObjects = Some eo
        \<and> RelationshipType_on_heap Singular entitiesMap entitiesObjects entity resolvers h
            = (r, h') \<longrightarrow>
        take (length h) h' = h
        \<and> entities_at h' entitiesMap = Some em \<and> objects_at h' entitiesObjects = Some eo
        \<and> RelationshipType_result h' r
            = RelationshipType Singular em eo entity resolvers
        \<and> (\<forall>r2 h2.
              RelationshipType_on_heap Singular entitiesMap entitiesObjects entity resolvers h'
                = (r2, h2) \<longrightarrow>
              RelationshipType_result h2 r2 = RelationshipType_result h' r))"
proof (intro conjI allI impI)
  fix r h' assume "FieldType_on_heap fc entity h = (r, h')"
  from FieldType_on_heap_refines [OF this]
  show "take (length h) h' = h" and first: "FieldType_result h' r = FieldType fc entity"
    by simp_all
  fix r2 h2 assume "FieldType_on_heap fc entity h' = (r2, h2)"
  from FieldType_on_heap_refines [OF this] first
  show "FieldType_result h2 r2 = FieldType_result h' r" by simp
next
  fix em eo r h'
  assume run: "entities_at h entitiesMap = Some em \<and> objects_at h entitiesObjects = Some eo
        \<and> RelationshipType_on_heap Singular entitiesMap entitiesObjects entity resolvers h
            = (r, h')"
  then have em: "entities_at h entitiesMap = Some em"
    and eo: "objects_at h entitiesObjects = Some eo"
    and call: "RelationshipType_on_heap Singular entitiesMap entitiesObjects entity resolvers h
            = (r, h')"
    by simp_all
  from RelationshipType_on_heap_refines [OF em eo call]
  show old: "take (length h) h' = h"
    and first: "RelationshipType_result h' r
            = RelationshipType Singular em eo entity resolvers"
    by simp_all
  from old_maps_kept [OF old] em eo
  show em': "entities_at h' entitiesMap = Some em"
    and eo': "objects_at h' entitiesObjects = Some eo"
    by simp_all
  fix r2 h2
  assume "RelationshipType_on_heap Singular entitiesMap entitiesObjects entity resolvers h'
                = (r2, h2)"
  from RelationshipType_on_heap_refines [OF em' eo' this] first
  show "RelationshipType_result h2 r2 = RelationshipType_result h' r" by simp
qed

text \<open>
  \<^verbatim>\<open>RelationshipType\<close> for the post, on the heap of the blog: the fields go to the new
  address 2, and the registries at 0 and 1 are as before.
\<close>

theorem calls_leave_inputs_unchanged_witness:
  "entities_at blog_heap 0 = Some blog_entitiesMap
   \<and> objects_at blog_heap 1 = Some blog_entitiesObjects
   \<and> RelationshipType_on_heap singular_s 0 1 (Some Post_entity) sample_resolvers blog_heap
       = (Returns (2, None), blog_heap @ [FieldMap blog_relationships])
   \<and> take (length blog_heap) (blog_heap @ [FieldMap blog_relationships]) = blog_heap
   \<and> entities_at (blog_heap @ [FieldMap blog_relationships]) 0 = Some blog_entitiesMap
   \<and> objects_at (blog_heap @ [FieldMap blog_relationships]) 1 = Some blog_entitiesObjects
   \<and> RelationshipType singular_s blog_entitiesMap blog_entitiesObjects (Some Post_entity)
         sample_resolvers
       = Returns (blog_relationships, None)"
proof -
  have maps: "entities_at blog_heap 0 = Some blog_entitiesMap"
    "objects_at blog_heap 1 = Some blog_entitiesObjects"
    by (simp_all add: entities_at_def objects_at_def blog_heap_def)
  note run = RelationshipType_on_heap_Post_entity
  have read: "RelationshipType_result (blog_heap @ [FieldMap blog_relationships])
      (Returns (2, None)) = Returns (blog_relationships, None)"
    by (simp add: RelationshipType_result_def fields_at_def blog_heap_def)
  from calls_leave_inputs_unchanged [where fc = codes and entity = "Some Post_entity"
      and h = blog_heap and entitiesMap = 0 and entitiesObjects = 1
      and Singular = singular_s and resolvers = sample_resolvers]
  have "\<forall>em eo r h'.
        entities_at blog_heap 0 = Some em \<and> objects_at blog_heap 1 = Some eo
        \<and> RelationshipType_on_heap singular_s 0 1 (Some Post_entity) sample_resolvers blog_heap
            = (r, h') \<longrightarrow>
        take (length blog_heap) h' = blog_heap
        \<and> entities_at h' 0 = Some em \<and> objects_at h' 1 = Some eo
        \<and> RelationshipType_result h' r
            = RelationshipType singular_s em eo (Some Post_entity) sample_resolvers
        \<and> (\<forall>r2 h2.
              RelationshipType_on_heap singular_s 0 1 (Some Post_entity) sample_resolvers h'
                = (r2, h2) \<longrightarrow>
              RelationshipType_result h2 r2 = RelationshipType_result h' r)"
    by (rule conjunct2)
  then have "entities_at blog_heap 0 = Some blog_entitiesMap
        \<and> objects_at blog_heap 1 = Some blog_entitiesObjects
        \<and> RelationshipType_on_heap singular_s 0 1 (Some Post_entity) sample_resolvers blog_heap
            = (Returns (2, None), blog_heap @ [FieldMap blog_relationships]) \<longrightarrow>
        take (length blog_heap) (blog_heap @ [FieldMap blog_relationships]) = blog_heap
        \<and> entities_at (blog_heap @ [FieldMap blog_relationships]) 0 = Some blog_entitiesMap
        \<and> objects_at (blog_heap @ [FieldMap blog_relationships]) 1
            = Some blog_entitiesObjects
        \<and> RelationshipType_result (blog_heap @ [FieldMap blog_relationships])
              (Returns (2, None))
            = RelationshipType singular_s blog_entitiesMap blog_entitiesObjects
                (Some Post_entity) sample_resolvers
        \<and> (\<forall>r2 h2.
              RelationshipType_on_heap singular_s 0 1 (Some Post_entity) sample_resolvers
                  (blog_heap @ [FieldMap blog_relationships])
                = (r2, h2) \<longrightarrow>
              RelationshipType_result h2 r2
                = RelationshipType_result (blog_heap @ [FieldMap blog_relationships])
                    (Returns (2, None)))"
    by blast
  with maps run have after: "take (length blog_heap) (blog_heap @ [FieldMap blog_relationships]) = blog_heap"
        "entities_at (blog_heap @ [FieldMap blog_relationships]) 0 = Some blog_entitiesMap"
        "objects_at (blog_heap @ [FieldMap blog_relationships]) 1
            = Some blog_entitiesObjects"
        "RelationshipType_result (blog_heap @ [FieldMap blog_relationships])
              (Returns (2, None))
            = RelationshipType singular_s blog_entitiesMap blog_entitiesObjects
                (Some Post_entity) sample_resolvers"
    by blast+
  from after(4) read have "RelationshipType singular_s blog_entitiesMap blog_entitiesObjects
      (Some Post_entity) sample_resolvers = Returns (blog_relationships, None)"
    by (simp only:)
  with maps run after(1,2,3) show ?thesis by (intro conjI)
qed

end
